theory Spec2Isabelle
  imports Complex_Main
begin

section \<open>Python values and errors\<close>

text \<open>
  The module \<^verbatim>\<open>thalesians/tsa/processes.py\<close> works on numpy arrays of floats. The
  embedding takes the entries as real numbers, a two-dimensional array as the list of
  its rows, and every exception the Python raises as a value \<open>Inl e\<close> of a sum type.
  The reals have no nan: where numpy would return nan (the square root of a negative
  number) the model returns the outcome \<open>NanResult\<close> in place of an array.
  Arrays are taken to have at least one row: a list of rows does not carry the column
  count of an array without rows.
\<close>

datatype error =
    NotImplementedError string
  | ValueError string
  | TypeError
  | ZeroDivisionError
  | AttributeError
  | LinAlgError
  | CheckError
  | NanResult

type_synonym mat = "real list list"

text \<open>An argument as a caller passes it: a float, a one-dimensional or a two-dimensional array.\<close>

datatype pyarg = Scalar real | Arr1 "real list" | Arr2 mat

definition bindE :: "error + 'a \<Rightarrow> ('a \<Rightarrow> error + 'b) \<Rightarrow> error + 'b" where
  "bindE r f = (case r of Inl e \<Rightarrow> Inl e | Inr v \<Rightarrow> f v)"

section \<open>numpy on two-dimensional arrays\<close>

definition nrow :: "'a list list \<Rightarrow> nat" where
  "nrow m = length m"

definition ncol :: "'a list list \<Rightarrow> nat" where
  "ncol m = (case m of [] \<Rightarrow> 0 | r # _ \<Rightarrow> length r)"

definition is_mat :: "nat \<Rightarrow> nat \<Rightarrow> 'a list list \<Rightarrow> bool" where
  "is_mat r c m = (length m = r \<and> list_all (\<lambda>row. length row = c) m)"

text \<open>
  numpy's broadcasting rule for one axis: equal lengths, or one of them is 1 and is
  stretched to the other.
\<close>

definition bdim :: "nat \<Rightarrow> nat \<Rightarrow> nat option" where
  "bdim a b = (if a = b then Some a else if a = 1 then Some b else if b = 1 then Some a else None)"

definition np_entry :: "'a list list \<Rightarrow> nat \<Rightarrow> nat \<Rightarrow> 'a" where
  "np_entry m i j = m ! (if nrow m = 1 then 0 else i) ! (if ncol m = 1 then 0 else j)"

definition np_binop :: "('a \<Rightarrow> 'a \<Rightarrow> 'b) \<Rightarrow> 'a list list \<Rightarrow> 'a list list \<Rightarrow> error + 'b list list" where
  "np_binop f a b =
     (case bdim (nrow a) (nrow b) of
        None \<Rightarrow> Inl (ValueError ''operands could not be broadcast together'')
      | Some r \<Rightarrow>
          (case bdim (ncol a) (ncol b) of
             None \<Rightarrow> Inl (ValueError ''operands could not be broadcast together'')
           | Some c \<Rightarrow>
               Inr (map (\<lambda>i. map (\<lambda>j. f (np_entry a i j) (np_entry b i j)) [0..<c]) [0..<r])))"

definition np_add :: "mat \<Rightarrow> mat \<Rightarrow> error + mat" where
  "np_add = np_binop (+)"

definition np_sub :: "mat \<Rightarrow> mat \<Rightarrow> error + mat" where
  "np_sub = np_binop (-)"

text \<open>The sum and the difference of two matrices of one shape, entry by entry.\<close>

definition mat_add :: "mat \<Rightarrow> mat \<Rightarrow> mat" where
  "mat_add a b = map2 (map2 (+)) a b"

definition mat_sub :: "mat \<Rightarrow> mat \<Rightarrow> mat" where
  "mat_sub a b = map2 (map2 (-)) a b"

text \<open>
  \<^verbatim>\<open>a == b\<close> on arrays: the array of the entries' comparisons, broadcast as for the
  arithmetic. On shapes that cannot be broadcast numpy raises from version 1.25 on, as
  here; earlier versions returned False with a warning.
\<close>

definition np_equal :: "mat \<Rightarrow> mat \<Rightarrow> error + bool list list" where
  "np_equal = np_binop (=)"

text \<open>\<^verbatim>\<open>a * x\<close> and \<^verbatim>\<open>x * a\<close> for a float \<open>x\<close>.\<close>

definition np_scale :: "mat \<Rightarrow> real \<Rightarrow> mat" where
  "np_scale m x = map (map (\<lambda>v. v * x)) m"

text \<open>The matrix product, and \<^verbatim>\<open>np.dot\<close>, which is the product when the inner dimensions agree.\<close>

definition mat_mul :: "mat \<Rightarrow> mat \<Rightarrow> mat" where
  "mat_mul a b =
     map (\<lambda>i. map (\<lambda>j. sum_list (map (\<lambda>k. a ! i ! k * b ! k ! j) [0..<ncol a])) [0..<ncol b])
         [0..<nrow a]"

definition np_dot :: "mat \<Rightarrow> mat \<Rightarrow> error + mat" where
  "np_dot a b =
     (if ncol a = nrow b then Inr (mat_mul a b) else Inl (ValueError ''shapes not aligned''))"

definition np_T :: "mat \<Rightarrow> mat" where
  "np_T m = map (\<lambda>j. map (\<lambda>i. m ! i ! j) [0..<nrow m]) [0..<ncol m]"

definition np_eye :: "nat \<Rightarrow> mat" where
  "np_eye n = map (\<lambda>i. map (\<lambda>j. if i = j then 1 else 0) [0..<n]) [0..<n]"

text \<open>
  \<^verbatim>\<open>bool(a)\<close> of an array, as \<^verbatim>\<open>and\<close> and \<^verbatim>\<open>not\<close> take it: the entry of an
  array of one entry, False for an empty array (deprecated in numpy), and the ValueError
  "The truth value of an array with more than one element is ambiguous" otherwise.
\<close>

definition np_bool :: "bool list list \<Rightarrow> error + bool" where
  "np_bool a =
     (case concat a of
        [] \<Rightarrow> Inr False
      | [b] \<Rightarrow> Inr b
      | _ \<Rightarrow> Inl (ValueError ''The truth value of an array with more than one element is ambiguous''))"

text \<open>
  The linear algebra of scipy and numpy that the module calls and does not define:
  \<^verbatim>\<open>scipy.linalg.expm\<close>, \<^verbatim>\<open>numpy.linalg.inv\<close> and \<^verbatim>\<open>numpy.linalg.cholesky\<close>. They are
  parameters of the model; each may raise.
\<close>

record linalg =
  expm :: "mat \<Rightarrow> error + mat"
  inv :: "mat \<Rightarrow> error + mat"
  cholesky :: "mat \<Rightarrow> error + mat"

section \<open>The collaborators: numpyutils, numpychecks, distrs\<close>

text \<open>
  Modelled from the spec: \<^verbatim>\<open>numpyutils.to_ndim_2\<close> with \<^verbatim>\<open>ndim_1_to_col=True\<close>, the
  "shape coercion between 1-D and column-vector forms": a float becomes a 1 x 1 array,
  a one-dimensional array a column, a two-dimensional array is itself. Every call of
  the module passes \<^verbatim>\<open>ndim_1_to_col=True\<close>; \<^verbatim>\<open>copy\<close> makes no difference to a value.
\<close>

fun to_ndim_2 :: "pyarg \<Rightarrow> mat" where
  "to_ndim_2 (Scalar x) = [[x]]"
| "to_ndim_2 (Arr1 xs) = map (\<lambda>x. [x]) xs"
| "to_ndim_2 (Arr2 m) = m"

text \<open>Modelled from the spec: \<^verbatim>\<open>numpyutils.col_of\<close>, the "zero/identity builders".\<close>

definition col_of :: "nat \<Rightarrow> real \<Rightarrow> mat" where
  "col_of n x = replicate n [x]"

text \<open>
  Modelled from the spec: \<^verbatim>\<open>numpyutils.kron_sum\<close>, the Kronecker sum of the glossary,
  \<open>A \<otimes> I + I \<otimes> B\<close>, with the Kronecker product \<^verbatim>\<open>kron\<close> of numpy.
\<close>

definition np_kron :: "mat \<Rightarrow> mat \<Rightarrow> mat" where
  "np_kron a b =
     map (\<lambda>i. map (\<lambda>j. a ! (i div nrow b) ! (j div ncol b) * b ! (i mod nrow b) ! (j mod ncol b))
                   [0..<ncol a * ncol b]) [0..<nrow a * nrow b]"

definition kron_sum :: "mat \<Rightarrow> mat \<Rightarrow> error + mat" where
  "kron_sum a b = np_add (np_kron a (np_eye (nrow b))) (np_kron (np_eye (nrow a)) b)"

text \<open>
  Modelled from the spec: \<^verbatim>\<open>numpyutils.vec\<close> stacks the columns of an array into one
  column, and \<^verbatim>\<open>numpyutils.unvec\<close> undoes it for a given number of rows.
\<close>

definition vec :: "mat \<Rightarrow> mat" where
  "vec m = concat (map (\<lambda>j. map (\<lambda>i. [m ! i ! j]) [0..<nrow m]) [0..<ncol m])"

definition unvec :: "mat \<Rightarrow> nat \<Rightarrow> mat" where
  "unvec v n = map (\<lambda>i. map (\<lambda>j. concat v ! (j * n + i)) [0..<length (concat v) div n]) [0..<n]"

text \<open>
  Modelled from the spec: the checks of \<^verbatim>\<open>numpychecks\<close>, "shape/type assertions that
  fail with a descriptive error on violation".
\<close>

definition check_col :: "mat \<Rightarrow> error + unit" where
  "check_col m = (if ncol m = 1 then Inr () else Inl CheckError)"

definition check_nrow :: "mat \<Rightarrow> nat \<Rightarrow> error + unit" where
  "check_nrow m n = (if nrow m = n then Inr () else Inl CheckError)"

definition check_square :: "mat \<Rightarrow> error + unit" where
  "check_square m = (if nrow m = ncol m then Inr () else Inl CheckError)"

text \<open>
  Modelled from the spec: \<^verbatim>\<open>distrs.NormalDistr\<close>, "a value type exposing mean (vector),
  cov (matrix), structural equality, and constructors for a Dirac-delta (point mass) and
  a Gaussian"; the point mass at a value has that mean and a zero covariance.
\<close>

record normal_distr =
  distr_mean :: mat
  distr_cov :: mat

definition NormalDistr :: "mat \<Rightarrow> mat \<Rightarrow> normal_distr" where
  "NormalDistr m c = \<lparr>distr_mean = m, distr_cov = c\<rparr>"

definition create_dirac_delta :: "mat \<Rightarrow> normal_distr" where
  "create_dirac_delta v = NormalDistr v (replicate (nrow v) (replicate (nrow v) 0))"

section \<open>Times\<close>

text \<open>
  A time coordinate is a number or a \<^verbatim>\<open>datetime\<close> (here its microseconds since the
  epoch); the difference of two times is a number or a \<^verbatim>\<open>timedelta\<close> (its
  microseconds). Subtracting a number and a datetime raises TypeError.
\<close>

datatype pytime = TNum real | TDateTime int

datatype pydelta = DNum real | DTimedelta int

fun time_sub :: "pytime \<Rightarrow> pytime \<Rightarrow> error + pydelta" where
  "time_sub (TNum a) (TNum b) = Inr (DNum (a - b))"
| "time_sub (TDateTime a) (TDateTime b) = Inr (DTimedelta (a - b))"
| "time_sub _ _ = Inl TypeError"

definition total_seconds :: "int \<Rightarrow> real" where
  "total_seconds us = real_of_int us / 1000000"

section \<open>MarkovProcess: the single-slot cache of propagate_distr\<close>

text \<open>
  The fields of a process that the base classes hold. \<^verbatim>\<open>time_unit\<close> is a timedelta
  (its microseconds); the four cache fields start as None. The closures \<^verbatim>\<open>drift\<close> and
  \<^verbatim>\<open>diffusion\<close> of ItoProcess are not read by any method below and are left out.
\<close>

record markov_process =
  process_dim :: nat
  noise_dim :: nat
  time_unit :: int
  cached_time :: "pytime option"
  cached_time0 :: "pytime option"
  cached_distr0 :: "normal_distr option"
  cached_distr :: "normal_distr option"

text \<open>
  \<^verbatim>\<open>cached != value\<close> for a cache field, which holds None or a value: None differs from
  every value, and two values are compared by content. For distributions this is
  modelled from the spec: the "structural equality" of the distribution type, "compared
  by value, not identity".
\<close>

definition py_ne :: "'a option \<Rightarrow> 'a \<Rightarrow> bool" where
  "py_ne c v = (c \<noteq> Some v)"

text \<open>
  Lines 70 to 72: the difference of the two times, divided by the time unit when it is a
  timedelta. Dividing by a time unit of zero seconds raises ZeroDivisionError.
\<close>

definition elapsed_step :: "int \<Rightarrow> pytime \<Rightarrow> pytime \<Rightarrow> error + real" where
  "elapsed_step unit time time0 =
     (case time_sub time time0 of
        Inl e \<Rightarrow> Inl e
      | Inr (DTimedelta us) \<Rightarrow>
          (if total_seconds unit = 0 then Inl ZeroDivisionError
           else Inr (total_seconds us / total_seconds unit))
      | Inr (DNum x) \<Rightarrow> Inr x)"

text \<open>
  Lines 73 to 76: the result of \<^verbatim>\<open>_propagate_distr_impl\<close> is stored with its key; when
  the implementation raises, the four assignments are not reached.
\<close>

definition cache_store ::
  "pytime \<Rightarrow> pytime \<Rightarrow> normal_distr \<Rightarrow> (error + normal_distr) \<times> 'a markov_process_scheme \<Rightarrow>
   (error + normal_distr option) \<times> 'a markov_process_scheme" where
  "cache_store time time0 distr0 r =
     (case r of
        (Inl e, p1) \<Rightarrow> (Inl e, p1)
      | (Inr d, p1) \<Rightarrow>
          (Inr (Some d),
           p1\<lparr>cached_distr := Some d, cached_time := Some time,
              cached_time0 := Some time0, cached_distr0 := Some distr0\<rparr>))"

text \<open>
  \<^verbatim>\<open>MarkovProcess.propagate_distr\<close>. The method \<^verbatim>\<open>_propagate_distr_impl\<close> of the
  subclass is the parameter \<open>impl\<close>; it may change the fields of the process. The value
  returned is a distribution, or None when the field \<^verbatim>\<open>_cached_distr\<close> holds None.
\<close>

definition propagate_distr ::
  "(real \<Rightarrow> normal_distr \<Rightarrow> 'a markov_process_scheme \<Rightarrow>
      (error + normal_distr) \<times> 'a markov_process_scheme) \<Rightarrow>
   pytime \<Rightarrow> pytime \<Rightarrow> normal_distr \<Rightarrow> 'a markov_process_scheme \<Rightarrow>
   (error + normal_distr option) \<times> 'a markov_process_scheme" where
  "propagate_distr impl time time0 distr0 p =
     (if time = time0 then (Inr (Some distr0), p)
      else if cached_time p = None \<or> py_ne (cached_time p) time \<or>
              py_ne (cached_time0 p) time0 \<or> py_ne (cached_distr0 p) distr0
      then (case elapsed_step (time_unit p) time time0 of
              Inl e \<Rightarrow> (Inl e, p)
            | Inr time_delta \<Rightarrow> cache_store time time0 distr0 (impl time_delta distr0 p))
      else (Inr (cached_distr p), p))"

definition MarkovProcess_propagate_distr_impl ::
  "real \<Rightarrow> normal_distr \<Rightarrow> 'a markov_process_scheme \<Rightarrow>
   (error + normal_distr) \<times> 'a markov_process_scheme" where
  "MarkovProcess_propagate_distr_impl time_delta distr0 p = (Inl (NotImplementedError []), p)"

section \<open>SolvedItoProcess and SolvedItoMarkovProcess\<close>

definition SolvedItoProcess_propagate ::
  "pytime \<Rightarrow> pyarg \<Rightarrow> pytime \<Rightarrow> pyarg \<Rightarrow> error + mat" where
  "SolvedItoProcess_propagate time variate time0 value0 = Inl (NotImplementedError [])"

definition SolvedItoMarkovProcess_propagate ::
  "linalg \<Rightarrow>
   (real \<Rightarrow> normal_distr \<Rightarrow> 'a markov_process_scheme \<Rightarrow>
      (error + normal_distr) \<times> 'a markov_process_scheme) \<Rightarrow>
   pytime \<Rightarrow> pyarg \<Rightarrow> pytime \<Rightarrow> pyarg \<Rightarrow> 'a markov_process_scheme \<Rightarrow>
   (error + mat) \<times> 'a markov_process_scheme" where
  "SolvedItoMarkovProcess_propagate la impl time variate time0 value0 p =
     (if noise_dim p \<noteq> process_dim p
      then (Inl (NotImplementedError
        ''Cannot utilise the propagate_distr of the Markov process in propagate if noise_dim != process_dim; provide a custom implementation''), p)
      else if time = time0 then (Inr (to_ndim_2 value0), p)
      else
        (case propagate_distr impl time time0 (create_dirac_delta (to_ndim_2 value0)) p of
           (Inl e, p1) \<Rightarrow> (Inl e, p1)
         | (Inr None, p1) \<Rightarrow> (Inl AttributeError, p1)
         | (Inr (Some distr), p1) \<Rightarrow>
             (bindE (cholesky la (distr_cov distr)) (\<lambda>l.
              bindE (np_dot l (to_ndim_2 variate)) (\<lambda>x.
              np_add (distr_mean distr) x)), p1)))"

text \<open>
  The constructors of the base classes: \<^verbatim>\<open>noise_dim\<close> defaults to \<^verbatim>\<open>process_dim\<close>, the
  cache starts empty.
\<close>

definition SolvedItoMarkovProcess_init :: "nat \<Rightarrow> nat option \<Rightarrow> int \<Rightarrow> markov_process" where
  "SolvedItoMarkovProcess_init d n unit =
     \<lparr>process_dim = d, noise_dim = (case n of None \<Rightarrow> d | Some k \<Rightarrow> k), time_unit = unit,
      cached_time = None, cached_time0 = None, cached_distr0 = None, cached_distr = None\<rparr>"

section \<open>WienerProcess\<close>

record wiener_process = markov_process +
  W_mean :: mat
  W_vol :: mat
  W_cov :: mat

text \<open>
  \<^verbatim>\<open>WienerProcess.__init__\<close>. The base constructor is called without a time unit, which
  is then its default of one day. The process dimension is the row count of the last of
  \<^verbatim>\<open>mean\<close>, \<^verbatim>\<open>vol\<close> that was given.
\<close>

definition WienerProcess_init :: "pyarg option \<Rightarrow> pyarg option \<Rightarrow> error + wiener_process" where
  "WienerProcess_init mean vol =
     (let mean1 = (if mean = None \<and> vol = None then Some (Scalar 0) else mean);
          vol1 = (if mean = None \<and> vol = None then Some (Scalar 1) else vol);
          d = (case vol1 of
                 Some v \<Rightarrow> nrow (to_ndim_2 v)
               | None \<Rightarrow> (case mean1 of Some m \<Rightarrow> nrow (to_ndim_2 m) | None \<Rightarrow> 0));
          m = (case mean1 of Some m \<Rightarrow> to_ndim_2 m | None \<Rightarrow> col_of d 0);
          v = (case vol1 of Some v \<Rightarrow> to_ndim_2 v | None \<Rightarrow> np_eye d)
      in bindE (check_col m) (\<lambda>_.
         bindE (check_nrow m d) (\<lambda>_.
         bindE (check_nrow v d) (\<lambda>_.
         bindE (np_dot v (np_T v)) (\<lambda>c.
         Inr \<lparr>process_dim = d, noise_dim = ncol v, time_unit = 86400000000,
              cached_time = None, cached_time0 = None, cached_distr0 = None,
              cached_distr = None, W_mean = m, W_vol = v, W_cov = c\<rparr>)))))"

text \<open>
  \<^verbatim>\<open>WienerProcess.propagate\<close>. The difference of the times is used as it is. For two
  datetimes it is a timedelta: \<^verbatim>\<open>self._mean * time_delta\<close> is then an array of timedeltas
  of the shape of the mean, and adding it to the array of floats \<^verbatim>\<open>value0\<close> raises
  TypeError (once the shapes are found to fit). For a negative difference \<^verbatim>\<open>np.sqrt\<close> is
  nan and so is the array returned (when the shapes fit): the outcome \<open>NanResult\<close>.
\<close>

definition WienerProcess_propagate ::
  "pytime \<Rightarrow> pyarg \<Rightarrow> pytime \<Rightarrow> pyarg \<Rightarrow> 'a wiener_process_scheme \<Rightarrow> error + mat" where
  "WienerProcess_propagate time variate time0 value0 p =
     (if time = time0 then Inr (to_ndim_2 value0)
      else
        (case time_sub time time0 of
           Inl e \<Rightarrow> Inl e
         | Inr (DTimedelta us) \<Rightarrow>
             bindE (np_add (to_ndim_2 value0) (W_mean p)) (\<lambda>_. Inl TypeError)
         | Inr (DNum time_delta) \<Rightarrow>
             bindE (np_add (to_ndim_2 value0) (np_scale (W_mean p) time_delta)) (\<lambda>a.
             bindE (np_dot (W_vol p) (np_scale (to_ndim_2 variate) (sqrt time_delta))) (\<lambda>b.
             bindE (np_add a b) (\<lambda>r.
             if time_delta < 0 then Inl NanResult else Inr r)))))"

definition WienerProcess_propagate_distr_impl ::
  "real \<Rightarrow> normal_distr \<Rightarrow> 'a wiener_process_scheme \<Rightarrow>
   (error + normal_distr) \<times> 'a wiener_process_scheme" where
  "WienerProcess_propagate_distr_impl time_delta distr0 p =
     (bindE (np_add (distr_mean distr0) (np_scale (W_mean p) time_delta)) (\<lambda>mean.
      bindE (np_add (distr_cov distr0) (np_scale (W_cov p) time_delta)) (\<lambda>cov.
      Inr (NormalDistr mean cov))), p)"

text \<open>
  \<^verbatim>\<open>WienerProcess.__eq__\<close> against another WienerProcess (for any other object it is
  False): \<^verbatim>\<open>a and b\<close> takes the truth
  value of the array \<^verbatim>\<open>a\<close> and is \<^verbatim>\<open>a\<close> when that is false, \<^verbatim>\<open>b\<close> otherwise, so the
  method returns an array of booleans. \<^verbatim>\<open>__ne__\<close> takes the truth value of that array.
\<close>

definition WienerProcess_eq ::
  "'a wiener_process_scheme \<Rightarrow> 'b wiener_process_scheme \<Rightarrow> error + bool list list" where
  "WienerProcess_eq p other =
     bindE (np_equal (W_mean p) (W_mean other)) (\<lambda>a.
     bindE (np_bool a) (\<lambda>t.
     if t then np_equal (W_vol p) (W_vol other) else Inr a))"

definition WienerProcess_ne ::
  "'a wiener_process_scheme \<Rightarrow> 'b wiener_process_scheme \<Rightarrow> error + bool" where
  "WienerProcess_ne p other =
     bindE (WienerProcess_eq p other) (\<lambda>r.
     bindE (np_bool r) (\<lambda>t. Inr (\<not> t)))"

section \<open>OrnsteinUhlenbeckProcess\<close>

record ou_process = markov_process +
  OU_transition :: mat
  OU_mean :: mat
  OU_vol :: mat
  OU_transition_x_2 :: mat
  OU_transition_x_2_inverse :: mat
  OU_cov :: mat
  OU_cov_vec :: mat
  cached_mean_reversion_factor :: "mat option"
  cached_mean_reversion_factor_time_delta :: "pydelta option"
  cached_mean_reversion_factor_squared :: "mat option"
  cached_mean_reversion_factor_squared_time_delta :: "pydelta option"

text \<open>
  \<^verbatim>\<open>OrnsteinUhlenbeckProcess.__init__\<close>. The process dimension is the row count of the
  last of \<^verbatim>\<open>transition\<close>, \<^verbatim>\<open>mean\<close>, \<^verbatim>\<open>vol\<close> that was given; the Kronecker sum of the
  transition with itself is inverted here, once.
\<close>

definition OrnsteinUhlenbeckProcess_init ::
  "linalg \<Rightarrow> pyarg option \<Rightarrow> pyarg option \<Rightarrow> pyarg option \<Rightarrow> error + ou_process" where
  "OrnsteinUhlenbeckProcess_init la transition mean vol =
     (let dflt = (transition = None \<and> mean = None \<and> vol = None);
          transition1 = (if dflt then Some (Scalar 1) else transition);
          mean1 = (if dflt then Some (Scalar 0) else mean);
          vol1 = (if dflt then Some (Scalar 1) else vol);
          d = (case vol1 of
                 Some v \<Rightarrow> nrow (to_ndim_2 v)
               | None \<Rightarrow>
                   (case mean1 of
                      Some m \<Rightarrow> nrow (to_ndim_2 m)
                    | None \<Rightarrow>
                        (case transition1 of Some t \<Rightarrow> nrow (to_ndim_2 t) | None \<Rightarrow> 0)));
          t = (case transition1 of Some t \<Rightarrow> to_ndim_2 t | None \<Rightarrow> np_eye d);
          m = (case mean1 of Some m \<Rightarrow> to_ndim_2 m | None \<Rightarrow> col_of d 0);
          v = (case vol1 of Some v \<Rightarrow> to_ndim_2 v | None \<Rightarrow> np_eye d)
      in bindE (check_square t) (\<lambda>_.
         bindE (check_nrow t d) (\<lambda>_.
         bindE (check_col m) (\<lambda>_.
         bindE (check_nrow m d) (\<lambda>_.
         bindE (check_nrow v d) (\<lambda>_.
         bindE (kron_sum t t) (\<lambda>k.
         bindE (inv la k) (\<lambda>ki.
         bindE (np_dot v (np_T v)) (\<lambda>c.
         Inr \<lparr>process_dim = d, noise_dim = ncol v, time_unit = 86400000000,
              cached_time = None, cached_time0 = None, cached_distr0 = None,
              cached_distr = None,
              OU_transition = t, OU_mean = m, OU_vol = v,
              OU_transition_x_2 = k, OU_transition_x_2_inverse = ki,
              OU_cov = c, OU_cov_vec = vec c,
              cached_mean_reversion_factor = None,
              cached_mean_reversion_factor_time_delta = None,
              cached_mean_reversion_factor_squared = None,
              cached_mean_reversion_factor_squared_time_delta = None\<rparr>)))))))))"

text \<open>
  \<^verbatim>\<open>la.expm(m * (-time_delta))\<close>. When \<^verbatim>\<open>time_delta\<close> is a timedelta (which
  \<^verbatim>\<open>propagate\<close> passes on for datetimes) the product is an array of timedelta objects,
  not of numbers, and \<^verbatim>\<open>expm\<close> raises.
\<close>

definition expm_scaled :: "linalg \<Rightarrow> mat \<Rightarrow> pydelta \<Rightarrow> error + mat" where
  "expm_scaled la m time_delta =
     (case time_delta of
        DNum x \<Rightarrow> expm la (np_scale m (- x))
      | DTimedelta us \<Rightarrow> Inl TypeError)"

text \<open>
  The two memoised factors. The key is assigned first, the factor after \<^verbatim>\<open>expm\<close> has
  returned; the value returned is the field, which holds None until a first success.
\<close>

definition mean_reversion_factor ::
  "linalg \<Rightarrow> pydelta \<Rightarrow> 'a ou_process_scheme \<Rightarrow> (error + mat option) \<times> 'a ou_process_scheme" where
  "mean_reversion_factor la time_delta p =
     (if cached_mean_reversion_factor_time_delta p = None \<or>
         py_ne (cached_mean_reversion_factor_time_delta p) time_delta
      then
        (let p1 = p\<lparr>cached_mean_reversion_factor_time_delta := Some time_delta\<rparr> in
         case expm_scaled la (OU_transition p1) time_delta of
           Inl e \<Rightarrow> (Inl e, p1)
         | Inr f \<Rightarrow> (Inr (Some f), p1\<lparr>cached_mean_reversion_factor := Some f\<rparr>))
      else (Inr (cached_mean_reversion_factor p), p))"

definition mean_reversion_factor_squared ::
  "linalg \<Rightarrow> pydelta \<Rightarrow> 'a ou_process_scheme \<Rightarrow> (error + mat option) \<times> 'a ou_process_scheme" where
  "mean_reversion_factor_squared la time_delta p =
     (if cached_mean_reversion_factor_squared_time_delta p = None \<or>
         py_ne (cached_mean_reversion_factor_squared_time_delta p) time_delta
      then
        (let p1 = p\<lparr>cached_mean_reversion_factor_squared_time_delta := Some time_delta\<rparr> in
         case expm_scaled la (OU_transition_x_2 p1) time_delta of
           Inl e \<Rightarrow> (Inl e, p1)
         | Inr f \<Rightarrow> (Inr (Some f), p1\<lparr>cached_mean_reversion_factor_squared := Some f\<rparr>))
      else (Inr (cached_mean_reversion_factor_squared p), p))"

text \<open>
  \<^verbatim>\<open>noise_covariance\<close>. The identity subtracted from is \<^verbatim>\<open>np.eye(self.process_dim)\<close>;
  subtracting None from an array raises TypeError.
\<close>

definition noise_covariance ::
  "linalg \<Rightarrow> pydelta \<Rightarrow> 'a ou_process_scheme \<Rightarrow> (error + mat) \<times> 'a ou_process_scheme" where
  "noise_covariance la time_delta p =
     (case mean_reversion_factor_squared la time_delta p of
        (Inl e, p1) \<Rightarrow> (Inl e, p1)
      | (Inr None, p1) \<Rightarrow> (Inl TypeError, p1)
      | (Inr (Some mrfsquared), p1) \<Rightarrow>
          (bindE (np_sub (np_eye (process_dim p1)) mrfsquared) (\<lambda>eyeminusmrfsquared.
           bindE (np_dot (OU_transition_x_2_inverse p1) eyeminusmrfsquared) (\<lambda>x.
           bindE (np_dot x (OU_cov_vec p1)) (\<lambda>y.
           Inr (unvec y (process_dim p1))))), p1))"

text \<open>
  The mean that \<^verbatim>\<open>propagate\<close> and \<^verbatim>\<open>_propagate_distr_impl\<close> both compute:
  \<^verbatim>\<open>np.dot(mrf, value0) + np.dot(np.eye(self.process_dim) - mrf, self._mean)\<close>.
\<close>

definition reverted_mean :: "'a ou_process_scheme \<Rightarrow> mat \<Rightarrow> mat \<Rightarrow> error + mat" where
  "reverted_mean p mrf value0 =
     bindE (np_sub (np_eye (process_dim p)) mrf) (\<lambda>eyeminusmrf.
     bindE (np_dot mrf value0) (\<lambda>a.
     bindE (np_dot eyeminusmrf (OU_mean p)) (\<lambda>b.
     np_add a b)))"

definition OrnsteinUhlenbeckProcess_propagate ::
  "linalg \<Rightarrow> pytime \<Rightarrow> pyarg \<Rightarrow> pytime \<Rightarrow> pyarg \<Rightarrow> 'a ou_process_scheme \<Rightarrow>
   (error + mat) \<times> 'a ou_process_scheme" where
  "OrnsteinUhlenbeckProcess_propagate la time variate time0 value0 p =
     (if time = time0 then (Inr (to_ndim_2 value0), p)
      else
        (case time_sub time time0 of
           Inl e \<Rightarrow> (Inl e, p)
         | Inr time_delta \<Rightarrow>
             (case mean_reversion_factor la time_delta p of
                (Inl e, p1) \<Rightarrow> (Inl e, p1)
              | (Inr None, p1) \<Rightarrow> (Inl TypeError, p1)
              | (Inr (Some mrf), p1) \<Rightarrow>
                  (case reverted_mean p1 mrf (to_ndim_2 value0) of
                     Inl e \<Rightarrow> (Inl e, p1)
                   | Inr m \<Rightarrow>
                       (case noise_covariance la time_delta p1 of
                          (Inl e, p2) \<Rightarrow> (Inl e, p2)
                        | (Inr c, p2) \<Rightarrow>
                            (bindE (cholesky la c) (\<lambda>l.
                             bindE (np_dot l (to_ndim_2 variate)) (\<lambda>x.
                             np_add m x)), p2))))))"

definition OrnsteinUhlenbeckProcess_propagate_distr_impl ::
  "linalg \<Rightarrow> real \<Rightarrow> normal_distr \<Rightarrow> 'a ou_process_scheme \<Rightarrow>
   (error + normal_distr) \<times> 'a ou_process_scheme" where
  "OrnsteinUhlenbeckProcess_propagate_distr_impl la time_delta distr0 p =
     (case mean_reversion_factor la (DNum time_delta) p of
        (Inl e, p1) \<Rightarrow> (Inl e, p1)
      | (Inr None, p1) \<Rightarrow> (Inl TypeError, p1)
      | (Inr (Some mrf), p1) \<Rightarrow>
          (case reverted_mean p1 mrf (distr_mean distr0) of
             Inl e \<Rightarrow> (Inl e, p1)
           | Inr m \<Rightarrow>
               (case bindE (np_dot mrf (distr_cov distr0)) (\<lambda>x. np_dot x (np_T mrf)) of
                  Inl e \<Rightarrow> (Inl e, p1)
                | Inr c1 \<Rightarrow>
                    (case noise_covariance la (DNum time_delta) p1 of
                       (Inl e, p2) \<Rightarrow> (Inl e, p2)
                     | (Inr nc, p2) \<Rightarrow>
                         (bindE (np_add c1 nc) (\<lambda>c. Inr (NormalDistr m c)), p2)))))"

definition OrnsteinUhlenbeckProcess_eq ::
  "'a ou_process_scheme \<Rightarrow> 'b ou_process_scheme \<Rightarrow> error + bool list list" where
  "OrnsteinUhlenbeckProcess_eq p other =
     bindE (np_equal (OU_mean p) (OU_mean other)) (\<lambda>a.
     bindE (np_bool a) (\<lambda>t.
     if t then np_equal (OU_vol p) (OU_vol other) else Inr a))"

definition OrnsteinUhlenbeckProcess_ne ::
  "'a ou_process_scheme \<Rightarrow> 'b ou_process_scheme \<Rightarrow> error + bool" where
  "OrnsteinUhlenbeckProcess_ne p other =
     bindE (OrnsteinUhlenbeckProcess_eq p other) (\<lambda>r.
     bindE (np_bool r) (\<lambda>t. Inr (\<not> t)))"

section \<open>Exact linear algebra on diagonal matrices\<close>

text \<open>
  On a diagonal matrix the exponential, the inverse and the Cholesky factor are taken
  entry by entry along the diagonal. This instance of the three library functions is
  exact there and declines every other matrix; the concrete processes below use it.
\<close>

definition is_diag :: "mat \<Rightarrow> bool" where
  "is_diag m =
     (is_mat (nrow m) (nrow m) m \<and>
      list_all (\<lambda>i. list_all (\<lambda>j. i = j \<or> m ! i ! j = 0) [0..<nrow m]) [0..<nrow m])"

definition diag_map :: "(real \<Rightarrow> real) \<Rightarrow> mat \<Rightarrow> mat" where
  "diag_map f m = map (\<lambda>i. map (\<lambda>j. if i = j then f (m ! i ! j) else 0) [0..<nrow m]) [0..<nrow m]"

definition diag_linalg :: linalg where
  "diag_linalg =
     \<lparr>expm = (\<lambda>m. if is_diag m then Inr (diag_map exp m) else Inl (NotImplementedError [])),
      inv = (\<lambda>m. if is_diag m
                 then (if list_all (\<lambda>i. m ! i ! i \<noteq> 0) [0..<nrow m]
                       then Inr (diag_map inverse m) else Inl LinAlgError)
                 else Inl (NotImplementedError [])),
      cholesky = (\<lambda>m. if is_diag m
                 then (if list_all (\<lambda>i. 0 < m ! i ! i) [0..<nrow m]
                       then Inr (diag_map sqrt m) else Inl LinAlgError)
                 else Inl (NotImplementedError []))\<rparr>"

section \<open>Predicates of the statements\<close>

text \<open>The triple of a call equals, by value, the key of the cache entry.\<close>

definition cache_hit :: "'a markov_process_scheme \<Rightarrow> pytime \<Rightarrow> pytime \<Rightarrow> normal_distr \<Rightarrow> bool" where
  "cache_hit p time time0 distr0 =
     (cached_time p = Some time \<and> cached_time0 p = Some time0 \<and> cached_distr0 p = Some distr0)"

text \<open>
  The cache entry, when there is one, holds what the implementation returns for its key.
  A new process has an empty cache, and \<open>propagate_distr\<close> keeps the property for an
  implementation that does not read the cache fields.
\<close>

definition cache_sound ::
  "(real \<Rightarrow> normal_distr \<Rightarrow> 'a markov_process_scheme \<Rightarrow>
      (error + normal_distr) \<times> 'a markov_process_scheme) \<Rightarrow>
   'a markov_process_scheme \<Rightarrow> bool" where
  "cache_sound impl p =
     (\<forall>time time0 distr0. cache_hit p time time0 distr0 \<longrightarrow>
        (\<exists>time_delta d. elapsed_step (time_unit p) time time0 = Inr time_delta \<and>
           fst (impl time_delta distr0 p) = Inr d \<and> cached_distr p = Some d))"

text \<open>
  A Wiener process of dimension \<open>d\<close> with \<open>n\<close> noise sources, as the constructor leaves
  it and \<open>propagate_distr\<close> keeps it: the mean is a column of \<open>d\<close> rows, the volatility
  is \<open>d \<times> n\<close>, and \<^verbatim>\<open>_cov\<close> is the volatility times its transpose.
\<close>

definition wiener_ok :: "nat \<Rightarrow> nat \<Rightarrow> 'a wiener_process_scheme \<Rightarrow> bool" where
  "wiener_ok d n p =
     (0 < d \<and> 0 < n \<and> is_mat d 1 (W_mean p) \<and> is_mat d n (W_vol p) \<and>
      W_cov p = mat_mul (W_vol p) (np_T (W_vol p)) \<and>
      cache_sound WienerProcess_propagate_distr_impl p)"

section \<open>Concrete processes\<close>

text \<open>
  \<^verbatim>\<open>OrnsteinUhlenbeckProcess()\<close>, the standard process of dimension 1 with transition 1,
  mean 0 and volatility 1, and \<^verbatim>\<open>WienerProcess()\<close>, with mean 0 and volatility 1.
\<close>

definition standard_ou :: ou_process where
  "standard_ou =
     \<lparr>process_dim = 1, noise_dim = 1, time_unit = 86400000000,
      cached_time = None, cached_time0 = None, cached_distr0 = None, cached_distr = None,
      OU_transition = [[1]], OU_mean = [[0]], OU_vol = [[1]],
      OU_transition_x_2 = [[2]], OU_transition_x_2_inverse = [[1 / 2]],
      OU_cov = [[1]], OU_cov_vec = [[1]],
      cached_mean_reversion_factor = None,
      cached_mean_reversion_factor_time_delta = None,
      cached_mean_reversion_factor_squared = None,
      cached_mean_reversion_factor_squared_time_delta = None\<rparr>"

definition standard_wiener :: wiener_process where
  "standard_wiener =
     \<lparr>process_dim = 1, noise_dim = 1, time_unit = 86400000000,
      cached_time = None, cached_time0 = None, cached_distr0 = None, cached_distr = None,
      W_mean = [[0]], W_vol = [[1]], W_cov = [[1]]\<rparr>"

text \<open>\<^verbatim>\<open>OrnsteinUhlenbeckProcess(transition=np.eye(2))\<close>, of dimension 2.\<close>

definition identity_ou :: ou_process where
  "identity_ou =
     \<lparr>process_dim = 2, noise_dim = 2, time_unit = 86400000000,
      cached_time = None, cached_time0 = None, cached_distr0 = None, cached_distr = None,
      OU_transition = [[1, 0], [0, 1]], OU_mean = [[0], [0]], OU_vol = [[1, 0], [0, 1]],
      OU_transition_x_2 = [[2, 0, 0, 0], [0, 2, 0, 0], [0, 0, 2, 0], [0, 0, 0, 2]],
      OU_transition_x_2_inverse =
        [[1 / 2, 0, 0, 0], [0, 1 / 2, 0, 0], [0, 0, 1 / 2, 0], [0, 0, 0, 1 / 2]],
      OU_cov = [[1, 0], [0, 1]], OU_cov_vec = [[1], [0], [0], [1]],
      cached_mean_reversion_factor = None,
      cached_mean_reversion_factor_time_delta = None,
      cached_mean_reversion_factor_squared = None,
      cached_mean_reversion_factor_squared_time_delta = None\<rparr>"

section \<open>Shapes and the numpy operations on matching shapes\<close>

lemma is_mat_nrow: "is_mat r c m \<Longrightarrow> nrow m = r"
  by (simp add: is_mat_def nrow_def)

lemma is_mat_ncol: "is_mat r c m \<Longrightarrow> 0 < r \<Longrightarrow> ncol m = c"
  by (cases m) (auto simp: is_mat_def ncol_def)

lemma is_mat_row: "is_mat r c m \<Longrightarrow> i < r \<Longrightarrow> length (m ! i) = c"
  by (auto simp: is_mat_def list_all_length)

lemma is_matI: "length m = r \<Longrightarrow> (\<And>i. i < r \<Longrightarrow> length (m ! i) = c) \<Longrightarrow> is_mat r c m"
  by (auto simp: is_mat_def list_all_length)

lemma bdim_same: "bdim n n = Some n"
  by (simp add: bdim_def)

lemma np_entry_in: "is_mat r c m \<Longrightarrow> i < r \<Longrightarrow> j < c \<Longrightarrow> np_entry m i j = m ! i ! j"
  by (cases "r = 0") (auto simp: np_entry_def is_mat_nrow is_mat_ncol)

text \<open>On two arrays of one shape nothing is broadcast: the operation is entry by entry.\<close>

lemma np_binop_same:
  assumes a: "is_mat r c a" and b: "is_mat r c b" and r: "0 < r"
  shows "np_binop f a b = Inr (map2 (map2 f) a b)"
proof -
  have la: "length a = r" and lb: "length b = r"
    using a b by (simp_all add: is_mat_def)
  have rows: "map (\<lambda>i. map (\<lambda>j. f (np_entry a i j) (np_entry b i j)) [0..<c]) [0..<r] =
      map2 (map2 f) a b"
  proof (rule nth_equalityI)
    show "length (map (\<lambda>i. map (\<lambda>j. f (np_entry a i j) (np_entry b i j)) [0..<c]) [0..<r]) =
        length (map2 (map2 f) a b)"
      by (simp add: la lb)
  next
    fix i
    assume "i < length (map (\<lambda>i. map (\<lambda>j. f (np_entry a i j) (np_entry b i j)) [0..<c]) [0..<r])"
    then have i: "i < r" by simp
    have "map (\<lambda>j. f (np_entry a i j) (np_entry b i j)) [0..<c] = map2 f (a ! i) (b ! i)"
      by (rule nth_equalityI)
         (simp_all add: is_mat_row [OF a i] is_mat_row [OF b i]
            np_entry_in [OF a i] np_entry_in [OF b i])
    then show "map (\<lambda>i. map (\<lambda>j. f (np_entry a i j) (np_entry b i j)) [0..<c]) [0..<r] ! i =
        map2 (map2 f) a b ! i"
      using i by (simp add: la lb)
  qed
  show ?thesis
    using r by (simp add: np_binop_def is_mat_nrow [OF a] is_mat_nrow [OF b]
        is_mat_ncol [OF a r] is_mat_ncol [OF b r] bdim_same rows)
qed

lemma np_add_same:
  "is_mat r c a \<Longrightarrow> is_mat r c b \<Longrightarrow> 0 < r \<Longrightarrow> np_add a b = Inr (mat_add a b)"
  by (simp add: np_add_def mat_add_def np_binop_same)

lemma np_sub_same:
  "is_mat r c a \<Longrightarrow> is_mat r c b \<Longrightarrow> 0 < r \<Longrightarrow> np_sub a b = Inr (mat_sub a b)"
  by (simp add: np_sub_def mat_sub_def np_binop_same)

lemma is_mat_map2: "is_mat r c a \<Longrightarrow> is_mat r c b \<Longrightarrow> is_mat r c (map2 (map2 f) a b)"
  by (auto simp: is_mat_def list_all_length)

lemma is_mat_add: "is_mat r c a \<Longrightarrow> is_mat r c b \<Longrightarrow> is_mat r c (mat_add a b)"
  by (simp add: mat_add_def is_mat_map2)

lemma is_mat_sub: "is_mat r c a \<Longrightarrow> is_mat r c b \<Longrightarrow> is_mat r c (mat_sub a b)"
  by (simp add: mat_sub_def is_mat_map2)

lemma is_mat_scale: "is_mat r c a \<Longrightarrow> is_mat r c (np_scale a x)"
  by (auto simp: is_mat_def np_scale_def list_all_length)

lemma is_mat_mul: "is_mat r k a \<Longrightarrow> is_mat k c b \<Longrightarrow> 0 < k \<Longrightarrow> is_mat r c (mat_mul a b)"
  by (auto simp: is_mat_def mat_mul_def list_all_length nrow_def ncol_def split: list.splits)

lemma np_dot_mul:
  "is_mat r k a \<Longrightarrow> is_mat k c b \<Longrightarrow> 0 < r \<Longrightarrow> np_dot a b = Inr (mat_mul a b)"
  by (simp add: np_dot_def is_mat_ncol is_mat_nrow)

lemma is_mat_T: "is_mat r c a \<Longrightarrow> 0 < r \<Longrightarrow> is_mat c r (np_T a)"
  by (auto simp: np_T_def is_mat_ncol is_mat_nrow intro!: is_matI)

lemma is_mat_eye: "is_mat n n (np_eye n)"
  by (auto simp: np_eye_def intro!: is_matI)

section \<open>The cache of propagate_distr\<close>

lemma cache_test:
  "(cached_time p = None \<or> py_ne (cached_time p) time \<or>
    py_ne (cached_time0 p) time0 \<or> py_ne (cached_distr0 p) distr0) =
   (\<not> cache_hit p time time0 distr0)"
  by (auto simp: py_ne_def cache_hit_def)

lemma propagate_distr_equal_times: "propagate_distr impl t t d p = (Inr (Some d), p)"
  by (simp add: propagate_distr_def)

lemma propagate_distr_hit:
  "time \<noteq> time0 \<Longrightarrow> cache_hit p time time0 distr0 \<Longrightarrow>
   propagate_distr impl time time0 distr0 p = (Inr (cached_distr p), p)"
  by (simp add: propagate_distr_def cache_test)

lemma propagate_distr_miss:
  "time \<noteq> time0 \<Longrightarrow> \<not> cache_hit p time time0 distr0 \<Longrightarrow>
   propagate_distr impl time time0 distr0 p =
     (case elapsed_step (time_unit p) time time0 of
        Inl e \<Rightarrow> (Inl e, p)
      | Inr time_delta \<Rightarrow> cache_store time time0 distr0 (impl time_delta distr0 p))"
  by (simp add: propagate_distr_def cache_test)

lemma elapsed_step_num: "elapsed_step u (TNum a) (TNum b) = Inr (a - b)"
  by (simp add: elapsed_step_def)

lemma elapsed_step_datetime:
  "u \<noteq> 0 \<Longrightarrow>
   elapsed_step u (TDateTime a) (TDateTime b) = Inr (real_of_int (a - b) / real_of_int u)"
proof -
  assume u: "u \<noteq> 0"
  have r: "x / 1000000 / (y / 1000000) = x / y" for x y :: real
    by (cases "y = 0") (simp_all add: field_simps)
  show ?thesis
    using u by (simp only: elapsed_step_def total_seconds_def r time_sub.simps sum.case pydelta.case)
      simp
qed

lemma init_no_hit: "\<not> cache_hit (SolvedItoMarkovProcess_init d n u) time time0 distr0"
  by (simp add: cache_hit_def SolvedItoMarkovProcess_init_def)

text \<open>
  C7. In \<open>propagate_distr\<close> with \<open>time \<noteq> time0\<close>, when the implementation is called (the
  triple is not the cached one), the step it receives is \<open>time - time0\<close> itself for two
  numbers, and for two datetimes the timedelta \<open>time - time0\<close> divided by the time unit
  (a time unit other than zero). The implementation is any function, so the equation
  fixes the argument it is given.
\<close>

theorem elapsed_step_passed:
  assumes "time \<noteq> time0" and "\<not> cache_hit p time time0 distr0"
  shows "(\<forall>a b. time = TNum a \<and> time0 = TNum b \<longrightarrow>
            propagate_distr impl time time0 distr0 p =
              cache_store time time0 distr0 (impl (a - b) distr0 p)) \<and>
         (\<forall>a b. time = TDateTime a \<and> time0 = TDateTime b \<and> time_unit p \<noteq> 0 \<longrightarrow>
            propagate_distr impl time time0 distr0 p =
              cache_store time time0 distr0
                (impl (real_of_int (a - b) / real_of_int (time_unit p)) distr0 p))"
proof (intro conjI allI impI)
  fix a b assume "time = TNum a \<and> time0 = TNum b"
  then show "propagate_distr impl time time0 distr0 p =
      cache_store time time0 distr0 (impl (a - b) distr0 p)"
    using assms by (simp add: propagate_distr_miss elapsed_step_num)
next
  fix a b assume "time = TDateTime a \<and> time0 = TDateTime b \<and> time_unit p \<noteq> 0"
  then show "propagate_distr impl time time0 distr0 p =
      cache_store time time0 distr0
        (impl (real_of_int (a - b) / real_of_int (time_unit p)) distr0 p)"
    using assms by (simp add: propagate_distr_miss elapsed_step_datetime del: of_int_diff)
qed

text \<open>
  Two days apart, with the time unit of one day, the step is 2; for the numbers 5 and 3
  it is their difference.
\<close>

theorem elapsed_step_passed_witness:
  "propagate_distr MarkovProcess_propagate_distr_impl (TDateTime 172800000000) (TDateTime 0)
       (create_dirac_delta [[0]]) (SolvedItoMarkovProcess_init 1 None 86400000000) =
     cache_store (TDateTime 172800000000) (TDateTime 0) (create_dirac_delta [[0]])
       (MarkovProcess_propagate_distr_impl 2 (create_dirac_delta [[0]])
          (SolvedItoMarkovProcess_init 1 None 86400000000)) \<and>
   propagate_distr MarkovProcess_propagate_distr_impl (TNum 5) (TNum 3)
       (create_dirac_delta [[0]]) (SolvedItoMarkovProcess_init 1 None 86400000000) =
     cache_store (TNum 5) (TNum 3) (create_dirac_delta [[0]])
       (MarkovProcess_propagate_distr_impl 2 (create_dirac_delta [[0]])
          (SolvedItoMarkovProcess_init 1 None 86400000000))"
proof -
  have u: "time_unit (SolvedItoMarkovProcess_init d n x) = x" for d n x
    by (simp add: SolvedItoMarkovProcess_init_def)
  have a: "TDateTime 172800000000 \<noteq> TDateTime 0" and b: "TNum 5 \<noteq> TNum 3"
    by simp_all
  show ?thesis
    using elapsed_step_passed [where time = "TDateTime 172800000000" and ?time0.0 = "TDateTime 0"
        and p = "SolvedItoMarkovProcess_init 1 None 86400000000"
        and ?distr0.0 = "create_dirac_delta [[0]]" and impl = MarkovProcess_propagate_distr_impl]
      elapsed_step_passed [where time = "TNum 5" and ?time0.0 = "TNum 3"
        and p = "SolvedItoMarkovProcess_init 1 None 86400000000"
        and ?distr0.0 = "create_dirac_delta [[0]]" and impl = MarkovProcess_propagate_distr_impl]
    by (simp add: u init_no_hit)
qed

section \<open>Unsupported propagate\<close>

text \<open>
  C8. \<open>propagate\<close> of a solved Markov process whose noise dimension differs from its
  process dimension raises NotImplementedError with a message that names the cause; the
  process is left as it was and the result does not depend on the implementation of the
  distribution propagation, which is not called. \<open>propagate\<close> of the abstract solved Ito
  process raises NotImplementedError.
\<close>

theorem propagate_unsupported:
  "(noise_dim p \<noteq> process_dim p \<longrightarrow>
      SolvedItoMarkovProcess_propagate la impl time variate time0 value0 p =
        (Inl (NotImplementedError
          ''Cannot utilise the propagate_distr of the Markov process in propagate if noise_dim != process_dim; provide a custom implementation''), p)) \<and>
   SolvedItoProcess_propagate time variate time0 value0 = Inl (NotImplementedError [])"
  by (simp add: SolvedItoMarkovProcess_propagate_def SolvedItoProcess_propagate_def)

theorem propagate_unsupported_witness:
  "SolvedItoMarkovProcess_propagate diag_linalg MarkovProcess_propagate_distr_impl
       (TNum 1) (Scalar 0) (TNum 0) (Scalar 0) (SolvedItoMarkovProcess_init 1 (Some 2) 86400000000) =
     (Inl (NotImplementedError
        ''Cannot utilise the propagate_distr of the Markov process in propagate if noise_dim != process_dim; provide a custom implementation''),
      SolvedItoMarkovProcess_init 1 (Some 2) 86400000000) \<and>
   SolvedItoProcess_propagate (TNum 1) (Scalar 0) (TNum 0) (Scalar 0) = Inl (NotImplementedError [])"
  using propagate_unsupported [where p = "SolvedItoMarkovProcess_init 1 (Some 2) 86400000000"
      and la = diag_linalg and impl = MarkovProcess_propagate_distr_impl and time = "TNum 1"
      and variate = "Scalar 0" and ?time0.0 = "TNum 0" and ?value0.0 = "Scalar 0"]
  by (simp add: SolvedItoMarkovProcess_init_def)

section \<open>The memoised factors of the Ornstein-Uhlenbeck process\<close>

lemma mean_reversion_factor_miss:
  "cached_mean_reversion_factor_time_delta p \<noteq> Some time_delta \<Longrightarrow>
   mean_reversion_factor la time_delta p =
     (case expm_scaled la (OU_transition p) time_delta of
        Inl e \<Rightarrow> (Inl e, p\<lparr>cached_mean_reversion_factor_time_delta := Some time_delta\<rparr>)
      | Inr f \<Rightarrow> (Inr (Some f), p\<lparr>cached_mean_reversion_factor_time_delta := Some time_delta,
                                  cached_mean_reversion_factor := Some f\<rparr>))"
  by (auto simp: mean_reversion_factor_def py_ne_def Let_def split: sum.splits)

lemma mean_reversion_factor_hit:
  "cached_mean_reversion_factor_time_delta p = Some time_delta \<Longrightarrow>
   mean_reversion_factor la time_delta p = (Inr (cached_mean_reversion_factor p), p)"
  by (simp add: mean_reversion_factor_def py_ne_def)

lemma mean_reversion_factor_squared_miss:
  "cached_mean_reversion_factor_squared_time_delta p \<noteq> Some time_delta \<Longrightarrow>
   mean_reversion_factor_squared la time_delta p =
     (case expm_scaled la (OU_transition_x_2 p) time_delta of
        Inl e \<Rightarrow> (Inl e, p\<lparr>cached_mean_reversion_factor_squared_time_delta := Some time_delta\<rparr>)
      | Inr f \<Rightarrow> (Inr (Some f), p\<lparr>cached_mean_reversion_factor_squared_time_delta := Some time_delta,
                                  cached_mean_reversion_factor_squared := Some f\<rparr>))"
  by (auto simp: mean_reversion_factor_squared_def py_ne_def Let_def split: sum.splits)

lemma mean_reversion_factor_squared_hit:
  "cached_mean_reversion_factor_squared_time_delta p = Some time_delta \<Longrightarrow>
   mean_reversion_factor_squared la time_delta p =
     (Inr (cached_mean_reversion_factor_squared p), p)"
  by (simp add: mean_reversion_factor_squared_def py_ne_def)

text \<open>
  C10. When \<open>expm\<close> raises in \<open>mean_reversion_factor\<close> (and in
  \<open>mean_reversion_factor_squared\<close>) for a step that is not the cached one, the process is
  left with the new key and the old factor: the key was assigned before the call. The
  next call with the same step returns that old factor, whatever the linear algebra
  would compute (it is not called). In \<open>propagate_distr\<close>, when the implementation
  raises, the state is the one the implementation left: the cache keys are not written.
\<close>

theorem memo_not_atomic:
  "(cached_mean_reversion_factor_time_delta p \<noteq> Some time_delta \<and>
    expm_scaled la (OU_transition p) time_delta = Inl e \<longrightarrow>
      mean_reversion_factor la time_delta p =
        (Inl e, p\<lparr>cached_mean_reversion_factor_time_delta := Some time_delta\<rparr>) \<and>
      mean_reversion_factor la' time_delta
          (p\<lparr>cached_mean_reversion_factor_time_delta := Some time_delta\<rparr>) =
        (Inr (cached_mean_reversion_factor p),
         p\<lparr>cached_mean_reversion_factor_time_delta := Some time_delta\<rparr>)) \<and>
   (cached_mean_reversion_factor_squared_time_delta p \<noteq> Some time_delta \<and>
    expm_scaled la (OU_transition_x_2 p) time_delta = Inl e \<longrightarrow>
      mean_reversion_factor_squared la time_delta p =
        (Inl e, p\<lparr>cached_mean_reversion_factor_squared_time_delta := Some time_delta\<rparr>) \<and>
      mean_reversion_factor_squared la' time_delta
          (p\<lparr>cached_mean_reversion_factor_squared_time_delta := Some time_delta\<rparr>) =
        (Inr (cached_mean_reversion_factor_squared p),
         p\<lparr>cached_mean_reversion_factor_squared_time_delta := Some time_delta\<rparr>)) \<and>
   (time \<noteq> time0 \<and> \<not> cache_hit q time time0 distr0 \<and>
    elapsed_step (time_unit q) time time0 = Inr step \<and> impl step distr0 q = (Inl e', q1) \<longrightarrow>
      propagate_distr impl time time0 distr0 q = (Inl e', q1))"
  by (simp add: mean_reversion_factor_miss mean_reversion_factor_hit
      mean_reversion_factor_squared_miss mean_reversion_factor_squared_hit
      propagate_distr_miss cache_store_def)

text \<open>
  \<open>propagate\<close> of the standard process between two datetimes passes a timedelta on, for
  which \<open>expm\<close> raises TypeError: the key is then the timedelta and the factor still
  None, which the next call returns. The base class's implementation raises, and the
  cache of \<open>propagate_distr\<close> stays empty.
\<close>

theorem memo_not_atomic_witness:
  "mean_reversion_factor diag_linalg (DTimedelta 1) standard_ou =
     (Inl TypeError, standard_ou\<lparr>cached_mean_reversion_factor_time_delta := Some (DTimedelta 1)\<rparr>) \<and>
   mean_reversion_factor diag_linalg (DTimedelta 1)
       (standard_ou\<lparr>cached_mean_reversion_factor_time_delta := Some (DTimedelta 1)\<rparr>) =
     (Inr None, standard_ou\<lparr>cached_mean_reversion_factor_time_delta := Some (DTimedelta 1)\<rparr>) \<and>
   mean_reversion_factor_squared diag_linalg (DTimedelta 1) standard_ou =
     (Inl TypeError,
      standard_ou\<lparr>cached_mean_reversion_factor_squared_time_delta := Some (DTimedelta 1)\<rparr>) \<and>
   mean_reversion_factor_squared diag_linalg (DTimedelta 1)
       (standard_ou\<lparr>cached_mean_reversion_factor_squared_time_delta := Some (DTimedelta 1)\<rparr>) =
     (Inr None,
      standard_ou\<lparr>cached_mean_reversion_factor_squared_time_delta := Some (DTimedelta 1)\<rparr>) \<and>
   propagate_distr MarkovProcess_propagate_distr_impl (TNum 1) (TNum 0) (create_dirac_delta [[0]])
       (SolvedItoMarkovProcess_init 1 None 86400000000) =
     (Inl (NotImplementedError []), SolvedItoMarkovProcess_init 1 None 86400000000)"
proof -
  have k: "cached_mean_reversion_factor_time_delta standard_ou = None"
    "cached_mean_reversion_factor_squared_time_delta standard_ou = None"
    "cached_mean_reversion_factor standard_ou = None"
    "cached_mean_reversion_factor_squared standard_ou = None"
    by (simp_all add: standard_ou_def)
  have x: "expm_scaled la m (DTimedelta 1) = Inl TypeError" for la m
    by (simp add: expm_scaled_def)
  have i: "MarkovProcess_propagate_distr_impl s d r = (Inl (NotImplementedError []), r)"
    for s d and r :: markov_process
    by (simp add: MarkovProcess_propagate_distr_impl_def)
  show ?thesis
    using memo_not_atomic [where p = standard_ou and time_delta = "DTimedelta 1"
        and la = diag_linalg and la' = diag_linalg and e = TypeError
        and time = "TNum 1" and ?time0.0 = "TNum 0" and step = 1
        and q = "SolvedItoMarkovProcess_init 1 None 86400000000"
        and ?q1.0 = "SolvedItoMarkovProcess_init 1 None 86400000000"
        and impl = MarkovProcess_propagate_distr_impl and e' = "NotImplementedError []"
        and ?distr0.0 = "create_dirac_delta [[0]]"]
    by (simp add: k x i init_no_hit elapsed_step_num)
qed

section \<open>Equal times\<close>

text \<open>
  C5, as the code has it. For every process and time \<open>t\<close>, \<open>propagate_distr(t, t, d)\<close>
  returns \<open>d\<close> and leaves the process, and so the cache, as it was. \<open>propagate(t, v, t, v0)\<close>
  of a Wiener process, of an Ornstein-Uhlenbeck process, and of a solved Markov process
  without an override whose noise dimension is its process dimension, returns \<open>v0\<close> as a
  two-dimensional array (\<open>v0\<close> itself when it is one) and leaves the process as it was.
\<close>

theorem equal_times_identity:
  "propagate_distr impl t t d p = (Inr (Some d), p) \<and>
   WienerProcess_propagate t v t v0 w = Inr (to_ndim_2 v0) \<and>
   OrnsteinUhlenbeckProcess_propagate la t v t v0 u = (Inr (to_ndim_2 v0), u) \<and>
   (noise_dim q = process_dim q \<longrightarrow>
      SolvedItoMarkovProcess_propagate la impl' t v t v0 q = (Inr (to_ndim_2 v0), q)) \<and>
   to_ndim_2 (Arr2 m) = m"
  by (simp add: propagate_distr_def WienerProcess_propagate_def
      OrnsteinUhlenbeckProcess_propagate_def SolvedItoMarkovProcess_propagate_def)

theorem equal_times_identity_witness:
  "propagate_distr MarkovProcess_propagate_distr_impl (TNum 1) (TNum 1) (create_dirac_delta [[5]])
       (SolvedItoMarkovProcess_init 1 None 86400000000) =
     (Inr (Some (create_dirac_delta [[5]])), SolvedItoMarkovProcess_init 1 None 86400000000) \<and>
   WienerProcess_propagate (TNum 1) (Scalar 3) (TNum 1) (Scalar 5) standard_wiener = Inr [[5]] \<and>
   OrnsteinUhlenbeckProcess_propagate diag_linalg (TNum 1) (Scalar 3) (TNum 1) (Scalar 5) standard_ou =
     (Inr [[5]], standard_ou) \<and>
   SolvedItoMarkovProcess_propagate diag_linalg MarkovProcess_propagate_distr_impl
       (TNum 1) (Scalar 3) (TNum 1) (Scalar 5) (SolvedItoMarkovProcess_init 1 None 86400000000) =
     (Inr [[5]], SolvedItoMarkovProcess_init 1 None 86400000000)"
  using equal_times_identity [where impl = MarkovProcess_propagate_distr_impl and t = "TNum 1"
      and d = "create_dirac_delta [[5]]" and p = "SolvedItoMarkovProcess_init 1 None 86400000000"
      and v = "Scalar 3" and ?v0.0 = "Scalar 5" and w = standard_wiener and la = diag_linalg
      and u = standard_ou and q = "SolvedItoMarkovProcess_init 1 None 86400000000"
      and impl' = MarkovProcess_propagate_distr_impl]
  by (simp add: SolvedItoMarkovProcess_init_def)

text \<open>
  The claim C5 as stated fails for the solved Markov process whose noise dimension
  differs from its process dimension: the dimension test comes before the test of the
  times, and \<open>propagate(t, v, t, v0)\<close> raises. So does the abstract solved Ito process.
\<close>

theorem equal_times_counterexample:
  "SolvedItoMarkovProcess_propagate diag_linalg MarkovProcess_propagate_distr_impl
       (TNum 1) (Scalar 3) (TNum 1) (Arr2 [[5]]) (SolvedItoMarkovProcess_init 1 (Some 2) 86400000000) =
     (Inl (NotImplementedError
        ''Cannot utilise the propagate_distr of the Markov process in propagate if noise_dim != process_dim; provide a custom implementation''),
      SolvedItoMarkovProcess_init 1 (Some 2) 86400000000) \<and>
   SolvedItoProcess_propagate (TNum 1) (Scalar 3) (TNum 1) (Arr2 [[5]]) =
     Inl (NotImplementedError [])"
  by (simp add: SolvedItoMarkovProcess_propagate_def SolvedItoMarkovProcess_init_def
      SolvedItoProcess_propagate_def)

section \<open>The Wiener process\<close>

lemma wiener_cov_shape:
  assumes "0 < d" "0 < n" "is_mat d n v"
  shows "is_mat d d (mat_mul v (np_T v))"
  using assms by (simp add: is_mat_mul [where k = n] is_mat_T)

lemma wiener_impl:
  assumes ok: "wiener_ok d n p" and m0: "is_mat d 1 m0" and c0: "is_mat d d C0"
  shows "WienerProcess_propagate_distr_impl dt (NormalDistr m0 C0) p =
     (Inr (NormalDistr (mat_add m0 (np_scale (W_mean p) dt))
                       (mat_add C0 (np_scale (mat_mul (W_vol p) (np_T (W_vol p))) dt))), p)"
proof -
  from ok have d: "0 < d" and n: "0 < n" and m: "is_mat d 1 (W_mean p)"
    and v: "is_mat d n (W_vol p)" and c: "W_cov p = mat_mul (W_vol p) (np_T (W_vol p))"
    by (simp_all add: wiener_ok_def)
  have a: "np_add m0 (np_scale (W_mean p) dt) = Inr (mat_add m0 (np_scale (W_mean p) dt))"
    using m0 m d by (simp add: np_add_same is_mat_scale)
  have b: "np_add C0 (np_scale (W_cov p) dt) =
      Inr (mat_add C0 (np_scale (mat_mul (W_vol p) (np_T (W_vol p))) dt))"
    using c0 d wiener_cov_shape [OF d n v] by (simp add: c np_add_same is_mat_scale)
  show ?thesis
    by (simp add: WienerProcess_propagate_distr_impl_def NormalDistr_def a b bindE_def)
qed

lemma wiener_impl_cache_indep:
  "fst (WienerProcess_propagate_distr_impl dt d0
      (p\<lparr>cached_distr := a, cached_time := b, cached_time0 := c, cached_distr0 := e\<rparr>)) =
   fst (WienerProcess_propagate_distr_impl dt d0 p)"
  by (simp add: WienerProcess_propagate_distr_impl_def)

lemma wiener_impl_state: "snd (WienerProcess_propagate_distr_impl dt d0 p) = p"
  by (simp add: WienerProcess_propagate_distr_impl_def)

text \<open>
  C3. For a Wiener process with mean \<open>\<mu>\<close> and volatility \<open>\<sigma>\<close>, \<open>propagate_distr\<close> over an
  elapsed step \<open>dt\<close> (two different times whose step is defined) applied to a prior with
  mean \<open>m0\<close> and covariance \<open>C0\<close> of the shapes of the process returns the normal
  distribution with mean \<open>m0 + \<mu> dt\<close> and covariance \<open>C0 + dt \<sigma>\<sigma>\<^sup>T\<close>, whether the result is
  computed or read from the cache.
\<close>

theorem wiener_propagate_distr:
  assumes ok: "wiener_ok d n p" and m0: "is_mat d 1 m0" and c0: "is_mat d d C0"
    and ne: "time \<noteq> time0" and st: "elapsed_step (time_unit p) time time0 = Inr dt"
  shows "fst (propagate_distr WienerProcess_propagate_distr_impl time time0 (NormalDistr m0 C0) p) =
     Inr (Some (NormalDistr (mat_add m0 (np_scale (W_mean p) dt))
                            (mat_add C0 (np_scale (mat_mul (W_vol p) (np_T (W_vol p))) dt))))"
proof (cases "cache_hit p time time0 (NormalDistr m0 C0)")
  case True
  from ok have "cache_sound WienerProcess_propagate_distr_impl p"
    by (simp add: wiener_ok_def)
  with True obtain td d' where
    "elapsed_step (time_unit p) time time0 = Inr td"
    "fst (WienerProcess_propagate_distr_impl td (NormalDistr m0 C0) p) = Inr d'"
    "cached_distr p = Some d'"
    unfolding cache_sound_def by blast
  with st show ?thesis
    by (simp add: propagate_distr_hit [OF ne True] wiener_impl [OF ok m0 c0])
next
  case False
  show ?thesis
    by (simp add: propagate_distr_miss [OF ne False] st wiener_impl [OF ok m0 c0] cache_store_def)
qed

text \<open>The property of the states is kept by \<open>propagate_distr\<close> and holds after the constructor.\<close>

lemma wiener_ok_preserved:
  assumes ok: "wiener_ok d n p"
  shows "wiener_ok d n (snd (propagate_distr WienerProcess_propagate_distr_impl time time0 distr0 p))"
proof (cases "time \<noteq> time0 \<and> \<not> cache_hit p time time0 distr0")
  case False
  then show ?thesis
    using ok by (cases "time = time0") (auto simp: propagate_distr_equal_times propagate_distr_hit)
next
  case True
  then have ne: "time \<noteq> time0" and miss: "\<not> cache_hit p time time0 distr0" by simp_all
  show ?thesis
  proof (cases "elapsed_step (time_unit p) time time0")
    case (Inl e)
    then show ?thesis using ok by (simp add: propagate_distr_miss [OF ne miss])
  next
    case (Inr td)
    obtain r where r: "WienerProcess_propagate_distr_impl td distr0 p = (r, p)"
      by (simp add: WienerProcess_propagate_distr_impl_def)
    show ?thesis
    proof (cases r)
      case (Inl e)
      then show ?thesis
        using ok by (simp add: propagate_distr_miss [OF ne miss] Inr r cache_store_def)
    next
      case (Inr dd)
      let ?p' = "p\<lparr>cached_distr := Some dd, cached_time := Some time,
              cached_time0 := Some time0, cached_distr0 := Some distr0\<rparr>"
      have s: "snd (propagate_distr WienerProcess_propagate_distr_impl time time0 distr0 p) = ?p'"
        by (simp add: propagate_distr_miss [OF ne miss] \<open>elapsed_step (time_unit p) time time0 = Inr td\<close>
            r Inr cache_store_def)
      have "cache_sound WienerProcess_propagate_distr_impl ?p'"
        unfolding cache_sound_def
        using \<open>elapsed_step (time_unit p) time time0 = Inr td\<close> r Inr
        by (auto simp: cache_hit_def wiener_impl_cache_indep)
      then show ?thesis
        using ok by (simp add: s wiener_ok_def)
    qed
  qed
qed

lemma standard_wiener_init: "WienerProcess_init None None = Inr standard_wiener"
  by code_simp

lemma standard_wiener_ok: "wiener_ok 1 1 standard_wiener"
  by (simp add: wiener_ok_def standard_wiener_def is_mat_def cache_sound_def cache_hit_def
      mat_mul_def np_T_def nrow_def ncol_def)

lemma wiener_init_ok:
  assumes i: "WienerProcess_init mean vol = Inr p"
    and m: "is_mat (process_dim p) 1 (W_mean p)" and v: "is_mat (process_dim p) n (W_vol p)"
    and n: "0 < n"
  shows "wiener_ok (process_dim p) n p"
proof -
  from i have c: "check_col (W_mean p) = Inr ()" "check_nrow (W_mean p) (process_dim p) = Inr ()"
    "W_cov p = mat_mul (W_vol p) (np_T (W_vol p))" "cached_time p = None"
    by (auto simp: WienerProcess_init_def Let_def bindE_def np_dot_def split: sum.splits if_splits)
  from c(1) have "W_mean p \<noteq> []"
    by (auto simp: check_col_def ncol_def split: if_splits)
  with c(2) have d: "0 < process_dim p"
    by (cases "W_mean p") (auto simp: check_nrow_def nrow_def split: if_splits)
  have "cache_sound WienerProcess_propagate_distr_impl p"
    by (simp add: cache_sound_def cache_hit_def c(4))
  with d n m v c(3) show ?thesis
    by (simp add: wiener_ok_def)
qed

text \<open>The scenario of the spec: the point mass at 0 after one unit of time is the standard normal.\<close>

theorem wiener_propagate_distr_witness:
  "fst (propagate_distr WienerProcess_propagate_distr_impl (TNum 1) (TNum 0)
      (NormalDistr [[0]] [[0]]) standard_wiener) = Inr (Some (NormalDistr [[0]] [[1]]))"
proof -
  have e: "elapsed_step (time_unit standard_wiener) (TNum 1) (TNum 0) = Inr 1"
    by (simp add: elapsed_step_num)
  have m: "is_mat 1 1 [[0::real]]" by (simp add: is_mat_def)
  have ne: "TNum 1 \<noteq> TNum 0" by simp
  have v: "mat_add [[0]] (np_scale (W_mean standard_wiener) 1) = [[0]]"
     "mat_add [[0]] (np_scale (mat_mul (W_vol standard_wiener) (np_T (W_vol standard_wiener))) 1) = [[1]]"
    by (simp_all add: standard_wiener_def mat_add_def np_scale_def mat_mul_def np_T_def nrow_def ncol_def)
  show ?thesis
    using wiener_propagate_distr [OF standard_wiener_ok m m ne e] by (simp add: v)
qed

text \<open>
  C4, as the code has it. For two numbers \<open>time0 < time\<close>, \<open>propagate\<close> of a Wiener process
  returns \<open>value0 + \<mu> dt + \<sigma> (sqrt dt variate)\<close> with \<open>dt = time - time0\<close>, for a value and a
  variate that are, as columns, of the process and the noise dimension.
\<close>

theorem wiener_propagate_forward:
  assumes d: "0 < d" and n: "0 < n" and m: "is_mat d 1 (W_mean p)" and v: "is_mat d n (W_vol p)"
    and x: "is_mat d 1 (to_ndim_2 value0)" and z: "is_mat n 1 (to_ndim_2 variate)"
    and lt: "t0 < t"
  shows "WienerProcess_propagate (TNum t) variate (TNum t0) value0 p =
     Inr (mat_add (mat_add (to_ndim_2 value0) (np_scale (W_mean p) (t - t0)))
                  (mat_mul (W_vol p) (np_scale (to_ndim_2 variate) (sqrt (t - t0)))))"
proof -
  have a: "np_add (to_ndim_2 value0) (np_scale (W_mean p) (t - t0)) =
      Inr (mat_add (to_ndim_2 value0) (np_scale (W_mean p) (t - t0)))"
    using x m d by (simp add: np_add_same is_mat_scale)
  have b: "np_dot (W_vol p) (np_scale (to_ndim_2 variate) (sqrt (t - t0))) =
      Inr (mat_mul (W_vol p) (np_scale (to_ndim_2 variate) (sqrt (t - t0))))"
    using v z d by (simp add: np_dot_mul [where k = n and c = 1] is_mat_scale)
  have c: "np_add (mat_add (to_ndim_2 value0) (np_scale (W_mean p) (t - t0)))
        (mat_mul (W_vol p) (np_scale (to_ndim_2 variate) (sqrt (t - t0)))) =
      Inr (mat_add (mat_add (to_ndim_2 value0) (np_scale (W_mean p) (t - t0)))
        (mat_mul (W_vol p) (np_scale (to_ndim_2 variate) (sqrt (t - t0)))))"
    using x m v z d n
    by (simp add: np_add_same [where r = d and c = 1] is_mat_add is_mat_scale
        is_mat_mul [where k = n])
  show ?thesis
    using lt by (simp add: WienerProcess_propagate_def a b c bindE_def)
qed

theorem wiener_propagate_forward_witness:
  "WienerProcess_propagate (TNum 4) (Scalar 1) (TNum 0) (Scalar 0) standard_wiener = Inr [[2]]"
proof -
  have s: "sqrt 4 = 2" by simp
  have m: "is_mat 1 1 [[x::real]]" for x by (simp add: is_mat_def)
  have "WienerProcess_propagate (TNum 4) (Scalar 1) (TNum 0) (Scalar 0) standard_wiener =
     Inr (mat_add (mat_add (to_ndim_2 (Scalar 0)) (np_scale (W_mean standard_wiener) (4 - 0)))
                  (mat_mul (W_vol standard_wiener) (np_scale (to_ndim_2 (Scalar 1)) (sqrt (4 - 0)))))"
    by (rule wiener_propagate_forward [where d = 1 and n = 1])
       (simp_all add: standard_wiener_def is_mat_def)
  then show ?thesis
    by (simp add: standard_wiener_def mat_add_def np_scale_def mat_mul_def nrow_def ncol_def)
qed

text \<open>
  The claim C4 as stated, for all times \<open>time \<noteq> time0\<close>, fails backwards in time, where
  the square root of the negative step is nan, and for two datetimes, whose difference
  is a timedelta that \<open>propagate\<close> does not divide by the time unit and numpy cannot
  take the square root of.
\<close>

theorem wiener_propagate_counterexample:
  "WienerProcess_propagate (TNum 0) (Scalar 1) (TNum 1) (Scalar 0) standard_wiener = Inl NanResult \<and>
   WienerProcess_propagate (TDateTime 86400000000) (Scalar 1) (TDateTime 0) (Scalar 0)
     standard_wiener = Inl TypeError"
  by (simp add: WienerProcess_propagate_def standard_wiener_def np_add_def np_binop_def bdim_def
      nrow_def ncol_def np_scale_def np_dot_def mat_mul_def bindE_def np_entry_def)

section \<open>Reuse and replacement of the cache entry\<close>

text \<open>
  C6, as the code has it. When a call of \<open>propagate_distr\<close> returns a distribution, the next
  call with the same triple returns the same distribution and the same state whatever
  the implementation is: the transition is not recomputed. A call with \<open>time \<noteq> time0\<close>
  whose triple differs by value from the cached key (or that finds no entry) calls the
  implementation, and when that returns a distribution the call returns it and replaces
  the entry by the new triple and result.
\<close>

theorem cache_reuse_and_replace:
  "(propagate_distr impl time time0 distr0 p = (Inr (Some d), p') \<longrightarrow>
      propagate_distr impl' time time0 distr0 p' = (Inr (Some d), p')) \<and>
   (time \<noteq> time0 \<and> \<not> cache_hit p time time0 distr0 \<and>
    elapsed_step (time_unit p) time time0 = Inr step \<and> impl step distr0 p = (Inr d1, p1) \<longrightarrow>
      propagate_distr impl time time0 distr0 p =
        (Inr (Some d1),
         p1\<lparr>cached_distr := Some d1, cached_time := Some time,
            cached_time0 := Some time0, cached_distr0 := Some distr0\<rparr>))"
proof (intro conjI impI)
  assume r: "propagate_distr impl time time0 distr0 p = (Inr (Some d), p')"
  show "propagate_distr impl' time time0 distr0 p' = (Inr (Some d), p')"
  proof (cases "time = time0")
    case True
    with r show ?thesis by (simp add: propagate_distr_equal_times)
  next
    case ne: False
    show ?thesis
    proof (cases "cache_hit p time time0 distr0")
      case True
      with r ne show ?thesis by (auto simp: propagate_distr_hit)
    next
      case False
      from r have "cache_hit p' time time0 distr0 \<and> cached_distr p' = Some d"
        by (auto simp: propagate_distr_miss [OF ne False] cache_store_def cache_hit_def
            split: sum.splits prod.splits)
      then show ?thesis by (simp add: propagate_distr_hit [OF ne])
    qed
  qed
next
  assume "time \<noteq> time0 \<and> \<not> cache_hit p time time0 distr0 \<and>
    elapsed_step (time_unit p) time time0 = Inr step \<and> impl step distr0 p = (Inr d1, p1)"
  then show "propagate_distr impl time time0 distr0 p =
        (Inr (Some d1),
         p1\<lparr>cached_distr := Some d1, cached_time := Some time,
            cached_time0 := Some time0, cached_distr0 := Some distr0\<rparr>)"
    by (simp add: propagate_distr_miss cache_store_def)
qed

lemma standard_wiener_step:
  "WienerProcess_propagate_distr_impl 1 (NormalDistr [[0]] [[0]]) standard_wiener =
     (Inr (NormalDistr [[0]] [[1]]), standard_wiener)"
  by code_simp

lemma standard_wiener_no_hit: "\<not> cache_hit standard_wiener time time0 distr0"
  by (simp add: cache_hit_def standard_wiener_def)

text \<open>
  The standard Wiener process from time 0 to time 1: the second call is answered from the
  cache even with the implementation of the base class, which raises when called.
\<close>

theorem cache_reuse_and_replace_witness:
  "propagate_distr WienerProcess_propagate_distr_impl (TNum 1) (TNum 0) (NormalDistr [[0]] [[0]])
       standard_wiener =
     (Inr (Some (NormalDistr [[0]] [[1]])),
      standard_wiener\<lparr>cached_distr := Some (NormalDistr [[0]] [[1]]), cached_time := Some (TNum 1),
        cached_time0 := Some (TNum 0), cached_distr0 := Some (NormalDistr [[0]] [[0]])\<rparr>) \<and>
   propagate_distr MarkovProcess_propagate_distr_impl (TNum 1) (TNum 0) (NormalDistr [[0]] [[0]])
       (standard_wiener\<lparr>cached_distr := Some (NormalDistr [[0]] [[1]]), cached_time := Some (TNum 1),
        cached_time0 := Some (TNum 0), cached_distr0 := Some (NormalDistr [[0]] [[0]])\<rparr>) =
     (Inr (Some (NormalDistr [[0]] [[1]])),
      standard_wiener\<lparr>cached_distr := Some (NormalDistr [[0]] [[1]]), cached_time := Some (TNum 1),
        cached_time0 := Some (TNum 0), cached_distr0 := Some (NormalDistr [[0]] [[0]])\<rparr>)"
proof -
  let ?p1 = "standard_wiener\<lparr>cached_distr := Some (NormalDistr [[0]] [[1]]),
      cached_time := Some (TNum 1), cached_time0 := Some (TNum 0),
      cached_distr0 := Some (NormalDistr [[0]] [[0]])\<rparr>"
  have e: "elapsed_step (time_unit standard_wiener) (TNum 1) (TNum 0) = Inr 1"
    by (simp add: elapsed_step_num)
  have first: "propagate_distr WienerProcess_propagate_distr_impl (TNum 1) (TNum 0)
      (NormalDistr [[0]] [[0]]) standard_wiener = (Inr (Some (NormalDistr [[0]] [[1]])), ?p1)"
    using cache_reuse_and_replace [where time = "TNum 1" and ?time0.0 = "TNum 0"
        and p = standard_wiener and ?distr0.0 = "NormalDistr [[0]] [[0]]" and step = 1
        and impl = WienerProcess_propagate_distr_impl and ?d1.0 = "NormalDistr [[0]] [[1]]"
        and ?p1.0 = standard_wiener]
    by (simp add: e standard_wiener_step standard_wiener_no_hit)
  then show ?thesis
    using cache_reuse_and_replace [where time = "TNum 1" and ?time0.0 = "TNum 0"
        and p = standard_wiener and ?distr0.0 = "NormalDistr [[0]] [[0]]"
        and impl = WienerProcess_propagate_distr_impl and d = "NormalDistr [[0]] [[1]]"
        and p' = ?p1 and impl' = MarkovProcess_propagate_distr_impl]
    by simp
qed

text \<open>
  The claim C6 as stated fails for a call with \<open>time = time0\<close>: its triple differs from
  the cached one, yet the call returns its argument before the cache is looked at, and
  the entry for the times 1 and 0 stays.
\<close>

theorem cache_replace_counterexample:
  "snd (propagate_distr WienerProcess_propagate_distr_impl (TNum 1) (TNum 0)
       (NormalDistr [[0]] [[0]]) standard_wiener) =
     standard_wiener\<lparr>cached_distr := Some (NormalDistr [[0]] [[1]]), cached_time := Some (TNum 1),
        cached_time0 := Some (TNum 0), cached_distr0 := Some (NormalDistr [[0]] [[0]])\<rparr> \<and>
   \<not> cache_hit
       (standard_wiener\<lparr>cached_distr := Some (NormalDistr [[0]] [[1]]), cached_time := Some (TNum 1),
        cached_time0 := Some (TNum 0), cached_distr0 := Some (NormalDistr [[0]] [[0]])\<rparr>)
       (TNum 2) (TNum 2) (NormalDistr [[5]] [[0]]) \<and>
   propagate_distr WienerProcess_propagate_distr_impl (TNum 2) (TNum 2) (NormalDistr [[5]] [[0]])
       (standard_wiener\<lparr>cached_distr := Some (NormalDistr [[0]] [[1]]), cached_time := Some (TNum 1),
        cached_time0 := Some (TNum 0), cached_distr0 := Some (NormalDistr [[0]] [[0]])\<rparr>) =
     (Inr (Some (NormalDistr [[5]] [[0]])),
      standard_wiener\<lparr>cached_distr := Some (NormalDistr [[0]] [[1]]), cached_time := Some (TNum 1),
        cached_time0 := Some (TNum 0), cached_distr0 := Some (NormalDistr [[0]] [[0]])\<rparr>)"
  by (simp add: propagate_distr_equal_times cache_hit_def
      propagate_distr_miss [OF _ standard_wiener_no_hit] elapsed_step_num standard_wiener_step
      cache_store_def)

section \<open>The concrete processes are what the constructors return\<close>

lemma inv_diag: "inv diag_linalg m =
   (if is_diag m
    then (if list_all (\<lambda>i. m ! i ! i \<noteq> 0) [0..<nrow m] then Inr (diag_map inverse m) else Inl LinAlgError)
    else Inl (NotImplementedError []))"
  by (simp add: diag_linalg_def)

lemma expm_diag: "expm diag_linalg m =
   (if is_diag m then Inr (diag_map exp m) else Inl (NotImplementedError []))"
  by (simp add: diag_linalg_def)

lemma cholesky_diag: "cholesky diag_linalg m =
   (if is_diag m
    then (if list_all (\<lambda>i. 0 < m ! i ! i) [0..<nrow m] then Inr (diag_map sqrt m) else Inl LinAlgError)
    else Inl (NotImplementedError []))"
  by (simp add: diag_linalg_def)

lemma standard_ou_init: "OrnsteinUhlenbeckProcess_init diag_linalg None None None = Inr standard_ou"
proof -
  have k: "kron_sum [[1]] [[1]] = Inr [[2]]" by code_simp
  have d: "is_diag [[2]]" by code_simp
  have n: "list_all (\<lambda>i. [[2::real]] ! i ! i \<noteq> 0) [0..<nrow [[2::real]]]" by code_simp
  have i: "diag_map inverse [[2]] = [[1 / 2]]" by code_simp
  have c: "np_dot [[1]] (np_T [[1]]) = Inr [[1]]" by code_simp
  have v: "vec [[1]] = [[1]]" by code_simp
  have s: "check_square [[1]] = Inr ()" "check_nrow [[1]] 1 = Inr ()" "check_col [[0]] = Inr ()"
    "check_nrow [[0]] 1 = Inr ()" "nrow [[1::real]] = 1" "ncol [[1::real]] = 1"
    by code_simp+
  show ?thesis
    by (simp add: OrnsteinUhlenbeckProcess_init_def Let_def bindE_def s k inv_diag d n i c v
        standard_ou_def del: One_nat_def)
qed

lemma identity_ou_init:
  "OrnsteinUhlenbeckProcess_init diag_linalg (Some (Arr2 [[1, 0], [0, 1]])) None None = Inr identity_ou"
proof -
  have e: "np_eye 2 = [[1, 0], [0, 1]]" "col_of 2 0 = [[0], [0]]" by code_simp+
  have k: "kron_sum [[1, 0], [0, 1]] [[1, 0], [0, 1]] =
      Inr [[2, 0, 0, 0], [0, 2, 0, 0], [0, 0, 2, 0], [0, 0, 0, 2]]" by code_simp
  have d: "is_diag [[2, 0, 0, 0], [0, 2, 0, 0], [0, 0, 2, 0], [0, 0, 0, 2]]" by code_simp
  have n: "list_all (\<lambda>i. [[2, 0, 0, 0], [0, 2, 0, 0], [0, 0, 2, 0], [0, 0, 0, 2::real]] ! i ! i \<noteq> 0)
      [0..<nrow [[2, 0, 0, 0], [0, 2, 0, 0], [0, 0, 2, 0], [0, 0, 0, 2::real]]]" by code_simp
  have i: "diag_map inverse [[2, 0, 0, 0], [0, 2, 0, 0], [0, 0, 2, 0], [0, 0, 0, 2]] =
      [[1 / 2, 0, 0, 0], [0, 1 / 2, 0, 0], [0, 0, 1 / 2, 0], [0, 0, 0, 1 / 2]]" by code_simp
  have c: "np_dot [[1, 0], [0, 1]] (np_T [[1, 0], [0, 1]]) = Inr [[1, 0], [0, 1]]" by code_simp
  have v: "vec [[1, 0], [0, 1]] = [[1], [0], [0], [1]]" by code_simp
  have s: "check_square [[1, 0], [0, 1]] = Inr ()" "check_nrow [[1, 0], [0, 1]] 2 = Inr ()"
    "check_col [[0], [0]] = Inr ()" "check_nrow [[0], [0]] 2 = Inr ()"
    "nrow [[1, 0], [0, 1::real]] = 2" "ncol [[1, 0], [0, 1::real]] = 2"
    by code_simp+
  show ?thesis
    by (simp add: OrnsteinUhlenbeckProcess_init_def Let_def bindE_def e s k inv_diag d n i c v
        identity_ou_def)
qed

section \<open>The identity of noise_covariance\<close>

lemma nrow_eye: "nrow (np_eye d) = d"
  by (simp add: np_eye_def nrow_def)

text \<open>
  An identity of \<open>d\<close> rows cannot be broadcast against an array of another number of
  rows unless one of the two numbers is 1. The squared factor has \<open>d\<^sup>2\<close> rows, so for every
  \<open>d\<close> from 2 on the subtraction in \<open>noise_covariance\<close> raises.
\<close>

lemma np_sub_eye_mismatch:
  "nrow M \<noteq> d \<Longrightarrow> nrow M \<noteq> 1 \<Longrightarrow> d \<noteq> 1 \<Longrightarrow>
   np_sub (np_eye d) M = Inl (ValueError ''operands could not be broadcast together'')"
  by (simp add: np_sub_def np_binop_def bdim_def nrow_eye)

lemma noise_covariance_dim_error:
  assumes "mean_reversion_factor_squared la time_delta p = (Inr (Some M), p1)"
    and "nrow M \<noteq> process_dim p1" and "nrow M \<noteq> 1" and "process_dim p1 \<noteq> 1"
  shows "noise_covariance la time_delta p =
    (Inl (ValueError ''operands could not be broadcast together''), p1)"
  using assms by (simp add: noise_covariance_def np_sub_eye_mismatch bindE_def)

lemma noise_covariance_raises_from_two:
  assumes "mean_reversion_factor_squared la time_delta p = (Inr (Some M), p1)"
    and "process_dim p1 = d" and "2 \<le> d" and "is_mat (d * d) (d * d) M"
  shows "noise_covariance la time_delta p =
    (Inl (ValueError ''operands could not be broadcast together''), p1)"
proof -
  have n: "nrow M = d * d"
    using assms by (simp add: is_mat_nrow)
  have a: "d * d \<noteq> d" "d * d \<noteq> 1" "d \<noteq> 1"
    using \<open>2 \<le> d\<close> by auto
  have "nrow M \<noteq> process_dim p1" "nrow M \<noteq> 1" "process_dim p1 \<noteq> 1"
    unfolding n assms(2) by (rule a)+
  then show ?thesis
    by (rule noise_covariance_dim_error [OF assms(1)])
qed

lemma identity_ou_squared:
  "mean_reversion_factor_squared diag_linalg (DNum 1) identity_ou =
     (Inr (Some [[exp (- 2), 0, 0, 0], [0, exp (- 2), 0, 0], [0, 0, exp (- 2), 0], [0, 0, 0, exp (- 2)]]),
      identity_ou\<lparr>cached_mean_reversion_factor_squared_time_delta := Some (DNum 1),
        cached_mean_reversion_factor_squared :=
          Some [[exp (- 2), 0, 0, 0], [0, exp (- 2), 0, 0], [0, 0, exp (- 2), 0], [0, 0, 0, exp (- 2)]]\<rparr>)"
proof -
  have k: "cached_mean_reversion_factor_squared_time_delta identity_ou \<noteq> Some (DNum 1)"
    by (simp add: identity_ou_def)
  have s: "np_scale (OU_transition_x_2 identity_ou) (- 1) =
      [[- 2, 0, 0, 0], [0, - 2, 0, 0], [0, 0, - 2, 0], [0, 0, 0, - 2]]"
    by (simp add: identity_ou_def np_scale_def)
  have d: "is_diag [[- 2, 0, 0, 0], [0, - 2, 0, 0], [0, 0, - 2, 0], [0, 0, 0, - 2]]"
    by code_simp
  have u: "[0..<4] = [0, 1, 2, 3]" by code_simp
  have e: "diag_map exp [[- 2, 0, 0, 0], [0, - 2, 0, 0], [0, 0, - 2, 0], [0, 0, 0, - 2]] =
      [[exp (- 2), 0, 0, 0], [0, exp (- 2), 0, 0], [0, 0, exp (- 2), 0], [0, 0, 0, exp (- 2)]]"
    by (simp add: diag_map_def nrow_def u)
  show ?thesis
    by (simp add: mean_reversion_factor_squared_miss [OF k] expm_scaled_def s expm_diag d e)
qed

text \<open>
  C1. The claim takes the identity conformable with the \<open>d\<^sup>2 \<times> d\<^sup>2\<close> squared factor; the code
  subtracts the factor from \<^verbatim>\<open>np.eye(self.process_dim)\<close>, which is \<open>d \<times> d\<close>. For the process
  of dimension 2 with the identity as transition, \<open>noise_covariance(1)\<close> is not the value
  of the formula: it raises the ValueError of a failed broadcast, of the shapes (2, 2)
  and (4, 4).
\<close>

theorem noise_covariance_dimension_two:
  "(case OrnsteinUhlenbeckProcess_init diag_linalg (Some (Arr2 [[1, 0], [0, 1]])) None None of
      Inl e \<Rightarrow> None
    | Inr p \<Rightarrow> Some (fst (noise_covariance diag_linalg (DNum 1) p))) =
   Some (Inl (ValueError ''operands could not be broadcast together''))"
proof -
  have "noise_covariance diag_linalg (DNum 1) identity_ou =
    (Inl (ValueError ''operands could not be broadcast together''),
     identity_ou\<lparr>cached_mean_reversion_factor_squared_time_delta := Some (DNum 1),
        cached_mean_reversion_factor_squared :=
          Some [[exp (- 2), 0, 0, 0], [0, exp (- 2), 0, 0], [0, 0, exp (- 2), 0], [0, 0, 0, exp (- 2)]]\<rparr>)"
    by (rule noise_covariance_dim_error [OF identity_ou_squared])
       (simp_all add: identity_ou_def nrow_def)
  then show ?thesis
    by (simp add: identity_ou_init)
qed

lemma identity_ou_factor:
  "mean_reversion_factor diag_linalg (DNum 1) identity_ou =
     (Inr (Some [[exp (- 1), 0], [0, exp (- 1)]]),
      identity_ou\<lparr>cached_mean_reversion_factor_time_delta := Some (DNum 1),
        cached_mean_reversion_factor := Some [[exp (- 1), 0], [0, exp (- 1)]]\<rparr>)"
proof -
  have k: "cached_mean_reversion_factor_time_delta identity_ou \<noteq> Some (DNum 1)"
    by (simp add: identity_ou_def)
  have s: "np_scale (OU_transition identity_ou) (- 1) = [[- 1, 0], [0, - 1]]"
    by (simp add: identity_ou_def np_scale_def)
  have d: "is_diag [[- 1, 0], [0, - 1]]"
    by code_simp
  have u: "[0..<2] = [0, 1]" by code_simp
  have e: "diag_map exp [[- 1, 0], [0, - 1]] = [[exp (- 1), 0], [0, exp (- 1)]]"
    by (simp add: diag_map_def nrow_def u)
  show ?thesis
    by (simp add: mean_reversion_factor_miss [OF k] expm_scaled_def s expm_diag d e)
qed

text \<open>
  C2. For the same process of dimension 2, \<open>propagate_distr\<close> from time 0 to time 1 of the
  point mass at the origin returns no distribution: the mean and the first summand of
  the covariance are computed, then \<open>noise_covariance\<close> raises the ValueError above.
\<close>

theorem propagate_distr_dimension_two:
  "(case OrnsteinUhlenbeckProcess_init diag_linalg (Some (Arr2 [[1, 0], [0, 1]])) None None of
      Inl e \<Rightarrow> None
    | Inr p \<Rightarrow>
        Some (fst (propagate_distr (OrnsteinUhlenbeckProcess_propagate_distr_impl diag_linalg)
                (TNum 1) (TNum 0) (NormalDistr [[0], [0]] [[0, 0], [0, 0]]) p))) =
   Some (Inl (ValueError ''operands could not be broadcast together''))"
proof -
  let ?F = "[[exp (- 1), 0], [0, exp (- 1)]] :: mat"
  let ?S = "[[exp (- 2), 0, 0, 0], [0, exp (- 2), 0, 0], [0, 0, exp (- 2), 0], [0, 0, 0, exp (- 2)]] :: mat"
  let ?p1 = "identity_ou\<lparr>cached_mean_reversion_factor_time_delta := Some (DNum 1),
        cached_mean_reversion_factor := Some ?F\<rparr>"
  let ?p2 = "?p1\<lparr>cached_mean_reversion_factor_squared_time_delta := Some (DNum 1),
        cached_mean_reversion_factor_squared := Some ?S\<rparr>"
  have F: "is_mat 2 2 ?F" by (simp add: is_mat_def)
  have z1: "is_mat 2 1 [[0], [0::real]]" and z2: "is_mat 2 2 [[0, 0], [0, 0::real]]"
    by (simp_all add: is_mat_def)
  have pd: "process_dim ?p1 = 2" and mn: "OU_mean ?p1 = [[0], [0]]"
    by (simp_all add: identity_ou_def)
  have sub: "np_sub (np_eye 2) ?F = Inr (mat_sub (np_eye 2) ?F)"
    by (rule np_sub_same [OF is_mat_eye F]) simp
  have rm: "reverted_mean ?p1 ?F [[0], [0]] =
      Inr (mat_add (mat_mul ?F [[0], [0]]) (mat_mul (mat_sub (np_eye 2) ?F) [[0], [0]]))"
    using F z1
    by (simp add: reverted_mean_def pd mn sub bindE_def
        np_dot_mul [where r = 2 and k = 2 and c = 1] is_mat_sub is_mat_eye
        np_add_same [where r = 2 and c = 1] is_mat_mul [where k = 2])
  have c1: "bindE (np_dot ?F [[0, 0], [0, 0]]) (\<lambda>x. np_dot x (np_T ?F)) =
      Inr (mat_mul (mat_mul ?F [[0, 0], [0, 0]]) (np_T ?F))"
    using F z2
    by (simp add: bindE_def np_dot_mul [where r = 2 and k = 2 and c = 2]
        is_mat_mul [where k = 2] is_mat_T)
  have sq: "mean_reversion_factor_squared diag_linalg (DNum 1) ?p1 = (Inr (Some ?S), ?p2)"
  proof -
    have k: "cached_mean_reversion_factor_squared_time_delta ?p1 \<noteq> Some (DNum 1)"
      by (simp add: identity_ou_def)
    have s: "np_scale (OU_transition_x_2 identity_ou) (- 1) =
        [[- 2, 0, 0, 0], [0, - 2, 0, 0], [0, 0, - 2, 0], [0, 0, 0, - 2]]"
      by (simp add: identity_ou_def np_scale_def)
    have d: "is_diag [[- 2, 0, 0, 0], [0, - 2, 0, 0], [0, 0, - 2, 0], [0, 0, 0, - 2]]"
      by code_simp
    have u: "[0..<4] = [0, 1, 2, 3]" by code_simp
    have e: "diag_map exp [[- 2, 0, 0, 0], [0, - 2, 0, 0], [0, 0, - 2, 0], [0, 0, 0, - 2]] = ?S"
      by (simp add: diag_map_def nrow_def u)
    show ?thesis
      by (simp add: mean_reversion_factor_squared_miss [OF k] expm_scaled_def s expm_diag d e)
  qed
  have nc: "noise_covariance diag_linalg (DNum 1) ?p1 =
      (Inl (ValueError ''operands could not be broadcast together''), ?p2)"
    by (rule noise_covariance_dim_error [OF sq]) (simp_all add: identity_ou_def nrow_def)
  have impl: "OrnsteinUhlenbeckProcess_propagate_distr_impl diag_linalg 1
      (NormalDistr [[0], [0]] [[0, 0], [0, 0]]) identity_ou =
      (Inl (ValueError ''operands could not be broadcast together''), ?p2)"
    by (simp add: OrnsteinUhlenbeckProcess_propagate_distr_impl_def identity_ou_factor
        NormalDistr_def rm c1 nc)
  have miss: "\<not> cache_hit identity_ou (TNum 1) (TNum 0) (NormalDistr [[0], [0]] [[0, 0], [0, 0]])"
    by (simp add: cache_hit_def identity_ou_def)
  have "fst (propagate_distr (OrnsteinUhlenbeckProcess_propagate_distr_impl diag_linalg)
      (TNum 1) (TNum 0) (NormalDistr [[0], [0]] [[0, 0], [0, 0]]) identity_ou) =
      Inl (ValueError ''operands could not be broadcast together'')"
    by (simp add: propagate_distr_miss [OF _ miss] elapsed_step_num impl cache_store_def)
  then show ?thesis
    by (simp add: identity_ou_init)
qed

section \<open>Equality of processes\<close>

lemma length_concat_mat: "is_mat r c a \<Longrightarrow> length (concat a) = r * c"
  by (induction a arbitrary: r) (auto simp: is_mat_def)

lemma np_bool_many:
  "is_mat r c a \<Longrightarrow> 2 \<le> r * c \<Longrightarrow>
   np_bool a = Inl (ValueError ''The truth value of an array with more than one element is ambiguous'')"
proof -
  assume "is_mat r c a" and "2 \<le> r * c"
  then have "2 \<le> length (concat a)" by (simp add: length_concat_mat)
  then obtain x y zs where "concat a = x # y # zs"
    by (cases "concat a"; cases "tl (concat a)") auto
  then show ?thesis by (simp add: np_bool_def)
qed

lemma np_equal_same:
  "is_mat r c a \<Longrightarrow> is_mat r c b \<Longrightarrow> 0 < r \<Longrightarrow> np_equal a b = Inr (map2 (map2 (=)) a b)"
  by (simp add: np_equal_def np_binop_same)

text \<open>Two processes of one dimension \<open>d \<ge> 2\<close>: the comparison of the means is an array of \<open>d\<close> booleans, which has no truth value.\<close>

lemma wiener_eq_raises:
  assumes "2 \<le> d" and "is_mat d 1 (W_mean p)" and "is_mat d 1 (W_mean q)"
  shows "WienerProcess_eq p q =
      Inl (ValueError ''The truth value of an array with more than one element is ambiguous'') \<and>
    WienerProcess_ne p q =
      Inl (ValueError ''The truth value of an array with more than one element is ambiguous'')"
proof -
  have "np_bool (map2 (map2 (=)) (W_mean p) (W_mean q)) =
      Inl (ValueError ''The truth value of an array with more than one element is ambiguous'')"
    using assms by (intro np_bool_many [where r = d and c = 1] is_mat_map2) simp_all
  then show ?thesis
    using assms by (simp add: WienerProcess_eq_def WienerProcess_ne_def np_equal_same bindE_def)
qed

lemma ou_eq_raises:
  assumes "2 \<le> d" and "is_mat d 1 (OU_mean p)" and "is_mat d 1 (OU_mean q)"
  shows "OrnsteinUhlenbeckProcess_eq p q =
      Inl (ValueError ''The truth value of an array with more than one element is ambiguous'') \<and>
    OrnsteinUhlenbeckProcess_ne p q =
      Inl (ValueError ''The truth value of an array with more than one element is ambiguous'')"
proof -
  have "np_bool (map2 (map2 (=)) (OU_mean p) (OU_mean q)) =
      Inl (ValueError ''The truth value of an array with more than one element is ambiguous'')"
    using assms by (intro np_bool_many [where r = d and c = 1] is_mat_map2) simp_all
  then show ?thesis
    using assms
    by (simp add: OrnsteinUhlenbeckProcess_eq_def OrnsteinUhlenbeckProcess_ne_def
        np_equal_same bindE_def)
qed

lemma mat11: "is_mat 1 1 a \<Longrightarrow> \<exists>x. a = [[x]]"
  by (cases a; cases "hd a") (auto simp: is_mat_def)

text \<open>In dimension 1 with one noise source the comparison has a truth value, and it is the equality of mean and volatility.\<close>

lemma wiener_eq_dimension_one:
  assumes "is_mat 1 1 (W_mean p)" "is_mat 1 1 (W_mean q)" "is_mat 1 1 (W_vol p)" "is_mat 1 1 (W_vol q)"
  shows "bindE (WienerProcess_eq p q) np_bool = Inr (W_mean p = W_mean q \<and> W_vol p = W_vol q) \<and>
    WienerProcess_ne p q = Inr (\<not> (W_mean p = W_mean q \<and> W_vol p = W_vol q))"
proof -
  obtain a b c d where "W_mean p = [[a]]" "W_mean q = [[b]]" "W_vol p = [[c]]" "W_vol q = [[d]]"
    using assms by (blast dest: mat11)
  then show ?thesis
    by (simp add: WienerProcess_eq_def WienerProcess_ne_def np_equal_def np_binop_def bdim_def
        nrow_def ncol_def np_entry_def np_bool_def bindE_def)
qed

lemma ou_eq_dimension_one:
  assumes "is_mat 1 1 (OU_mean p)" "is_mat 1 1 (OU_mean q)" "is_mat 1 1 (OU_vol p)" "is_mat 1 1 (OU_vol q)"
  shows "bindE (OrnsteinUhlenbeckProcess_eq p q) np_bool = Inr (OU_mean p = OU_mean q \<and> OU_vol p = OU_vol q) \<and>
    OrnsteinUhlenbeckProcess_ne p q = Inr (\<not> (OU_mean p = OU_mean q \<and> OU_vol p = OU_vol q))"
proof -
  obtain a b c d where "OU_mean p = [[a]]" "OU_mean q = [[b]]" "OU_vol p = [[c]]" "OU_vol q = [[d]]"
    using assms by (blast dest: mat11)
  then show ?thesis
    by (simp add: OrnsteinUhlenbeckProcess_eq_def OrnsteinUhlenbeckProcess_ne_def np_equal_def
        np_binop_def bdim_def nrow_def ncol_def np_entry_def np_bool_def bindE_def)
qed

text \<open>
  C9. The claim has equality decided by the contents of mean and volatility in every
  dimension. In the code \<^verbatim>\<open>self._mean == other._mean\<close> is an array, and for the processes
  of dimension 2 (a Wiener process with mean \<open>(0, 0)\<close>, the Ornstein-Uhlenbeck process with
  the identity as transition), compared with themselves, both \<^verbatim>\<open>__eq__\<close> and \<^verbatim>\<open>__ne__\<close>
  raise the ValueError of an array without a truth value.
\<close>

theorem equality_dimension_two:
  "(case WienerProcess_init (Some (Arr1 [0, 0])) None of
      Inl e \<Rightarrow> None
    | Inr w \<Rightarrow> Some (WienerProcess_eq w w, WienerProcess_ne w w)) =
   Some (Inl (ValueError ''The truth value of an array with more than one element is ambiguous''),
         Inl (ValueError ''The truth value of an array with more than one element is ambiguous'')) \<and>
   (case OrnsteinUhlenbeckProcess_init diag_linalg (Some (Arr2 [[1, 0], [0, 1]])) None None of
      Inl e \<Rightarrow> None
    | Inr p \<Rightarrow> Some (OrnsteinUhlenbeckProcess_eq p p, OrnsteinUhlenbeckProcess_ne p p)) =
   Some (Inl (ValueError ''The truth value of an array with more than one element is ambiguous''),
         Inl (ValueError ''The truth value of an array with more than one element is ambiguous''))"
proof -
  have w: "(case WienerProcess_init (Some (Arr1 [0, 0])) None of
      Inl e \<Rightarrow> None
    | Inr w \<Rightarrow> Some (WienerProcess_eq w w, WienerProcess_ne w w)) =
   Some (Inl (ValueError ''The truth value of an array with more than one element is ambiguous''),
         Inl (ValueError ''The truth value of an array with more than one element is ambiguous''))"
    by code_simp
  have m: "is_mat 2 1 (OU_mean identity_ou)"
    by (simp add: identity_ou_def is_mat_def)
  show ?thesis
    using ou_eq_raises [OF _ m m] by (simp add: w identity_ou_init)
qed

section \<open>What holds of the Ornstein-Uhlenbeck process\<close>

text \<open>
  The factor returned is the exponential of \<open>- transition \<times> step\<close> that \<open>expm\<close> computes,
  when the memo is coherent: a key equal to the step goes with the factor of that step.
\<close>

lemma mean_reversion_factor_value:
  assumes "expm_scaled la (OU_transition p) time_delta = Inr f"
    and "cached_mean_reversion_factor_time_delta p = Some time_delta \<Longrightarrow>
         cached_mean_reversion_factor p = Some f"
  shows "fst (mean_reversion_factor la time_delta p) = Inr (Some f)"
proof (cases "cached_mean_reversion_factor_time_delta p = Some time_delta")
  case True
  with assms show ?thesis by (simp add: mean_reversion_factor_hit)
next
  case False
  with assms show ?thesis by (simp add: mean_reversion_factor_miss)
qed

text \<open>
  In dimension 1 the identity \<^verbatim>\<open>np.eye(process_dim)\<close> is the identity of the \<open>1 \<times> 1\<close> squared
  factor, and \<open>noise_covariance\<close> is the formula of the spec.
\<close>

lemma noise_covariance_dimension_one:
  assumes sq: "mean_reversion_factor_squared la time_delta p = (Inr (Some M), p1)"
    and d: "process_dim p1 = 1" and M: "is_mat 1 1 M"
    and k: "is_mat 1 1 (OU_transition_x_2_inverse p1)" and c: "is_mat 1 1 (OU_cov_vec p1)"
  shows "noise_covariance la time_delta p =
    (Inr (unvec (mat_mul (mat_mul (OU_transition_x_2_inverse p1) (mat_sub (np_eye 1) M))
                         (OU_cov_vec p1)) 1), p1)"
proof -
  have s: "np_sub (np_eye 1) M = Inr (mat_sub (np_eye 1) M)"
    by (rule np_sub_same [OF is_mat_eye M]) simp
  have e: "is_mat 1 1 (mat_sub (np_eye 1) M)"
    by (rule is_mat_sub [OF is_mat_eye M])
  have a: "np_dot (OU_transition_x_2_inverse p1) (mat_sub (np_eye 1) M) =
      Inr (mat_mul (OU_transition_x_2_inverse p1) (mat_sub (np_eye 1) M))"
    by (rule np_dot_mul [OF k e]) simp
  have b: "np_dot (mat_mul (OU_transition_x_2_inverse p1) (mat_sub (np_eye 1) M)) (OU_cov_vec p1) =
      Inr (mat_mul (mat_mul (OU_transition_x_2_inverse p1) (mat_sub (np_eye 1) M)) (OU_cov_vec p1))"
    by (rule np_dot_mul [OF is_mat_mul [OF k e] c]) simp_all
  show ?thesis
    using s a b by (simp add: noise_covariance_def sq d bindE_def del: One_nat_def)
qed

text \<open>
  The scenario of the spec: the standard process over the step \<open>ln 2\<close> has the factor
  \<open>1/2\<close>, and the point mass at 1 is propagated to the mean \<open>1/2\<close> (and the variance \<open>3/8\<close>).
\<close>

lemma exp_half_life: "exp (- ln 2) = (1 / 2 :: real)" "exp (- (2 * ln 2)) = (1 / 4 :: real)"
proof -
  show "exp (- ln 2) = (1 / 2 :: real)"
    using exp_minus [of "ln 2 :: real"] by simp
  have "exp (ln 2 + ln 2) = (exp (ln 2) * exp (ln 2) :: real)"
    by (rule exp_add)
  then have "exp (2 * ln 2) = (4 :: real)"
    by simp
  then show "exp (- (2 * ln 2)) = (1 / 4 :: real)"
    using exp_minus [of "2 * ln 2 :: real"] by simp
qed

lemma diag_one: "is_diag [[x]]"
  by (simp add: is_diag_def is_mat_def nrow_def)

lemma diag_map_one: "diag_map f [[x]] = [[f x]]"
  by (simp add: diag_map_def nrow_def)

lemma is_mat_one: "is_mat 1 1 [[x]]"
  by (simp add: is_mat_def)

lemma standard_ou_factor:
  "mean_reversion_factor diag_linalg (DNum (ln 2)) standard_ou =
      (Inr (Some [[1 / 2]]),
       standard_ou\<lparr>cached_mean_reversion_factor_time_delta := Some (DNum (ln 2)),
         cached_mean_reversion_factor := Some [[1 / 2]]\<rparr>)"
proof -
  have k: "cached_mean_reversion_factor_time_delta standard_ou \<noteq> Some (DNum (ln 2))"
    by (simp add: standard_ou_def)
  have s: "np_scale (OU_transition standard_ou) (- ln 2) = [[- ln 2]]"
    by (simp add: standard_ou_def np_scale_def)
  show ?thesis
    by (simp add: mean_reversion_factor_miss [OF k] expm_scaled_def s expm_diag diag_one
        diag_map_one exp_half_life)
qed

lemma standard_ou_half_life:
  "fst (mean_reversion_factor diag_linalg (DNum (ln 2)) standard_ou) = Inr (Some [[1 / 2]])"
  "fst (propagate_distr (OrnsteinUhlenbeckProcess_propagate_distr_impl diag_linalg)
          (TNum (ln 2)) (TNum 0) (create_dirac_delta [[1]]) standard_ou) =
     Inr (Some (NormalDistr [[1 / 2]] [[3 / 8]]))"
proof -
  show "fst (mean_reversion_factor diag_linalg (DNum (ln 2)) standard_ou) = Inr (Some [[1 / 2]])"
    by (simp add: standard_ou_factor)
  let ?p1 = "standard_ou\<lparr>cached_mean_reversion_factor_time_delta := Some (DNum (ln 2)),
         cached_mean_reversion_factor := Some [[1 / 2]]\<rparr>"
  let ?p2 = "?p1\<lparr>cached_mean_reversion_factor_squared_time_delta := Some (DNum (ln 2)),
         cached_mean_reversion_factor_squared := Some [[1 / 4]]\<rparr>"
  have rm: "reverted_mean ?p1 [[1 / 2]] [[1]] = Inr [[1 / 2]]"
    by (simp add: reverted_mean_def standard_ou_def np_sub_def np_add_def np_binop_def bdim_def
        np_eye_def nrow_def ncol_def np_entry_def np_dot_def mat_mul_def bindE_def)
  have c1: "bindE (np_dot [[1 / 2]] [[0]]) (\<lambda>x. np_dot x (np_T [[1 / 2]])) = Inr [[0]]"
    by (simp add: np_dot_def mat_mul_def np_T_def nrow_def ncol_def bindE_def)
  have sq: "mean_reversion_factor_squared diag_linalg (DNum (ln 2)) ?p1 = (Inr (Some [[1 / 4]]), ?p2)"
  proof -
    have k: "cached_mean_reversion_factor_squared_time_delta ?p1 \<noteq> Some (DNum (ln 2))"
      by (simp add: standard_ou_def)
    have s: "np_scale (OU_transition_x_2 standard_ou) (- ln 2) = [[- (2 * ln 2)]]"
      by (simp add: standard_ou_def np_scale_def)
    show ?thesis
      by (simp add: mean_reversion_factor_squared_miss [OF k] expm_scaled_def s expm_diag diag_one
        diag_map_one exp_half_life)
  qed
  have nc: "noise_covariance diag_linalg (DNum (ln 2)) ?p1 = (Inr [[3 / 8]], ?p2)"
  proof -
    have "noise_covariance diag_linalg (DNum (ln 2)) ?p1 =
      (Inr (unvec (mat_mul (mat_mul (OU_transition_x_2_inverse ?p2) (mat_sub (np_eye 1) [[1 / 4]]))
                         (OU_cov_vec ?p2)) 1), ?p2)"
      by (rule noise_covariance_dimension_one [OF sq])
         (simp_all add: standard_ou_def is_mat_one del: One_nat_def)
    moreover have "unvec (mat_mul (mat_mul (OU_transition_x_2_inverse ?p2) (mat_sub (np_eye 1) [[1 / 4]]))
                         (OU_cov_vec ?p2)) 1 = [[3 / 8]]"
      by (simp add: standard_ou_def unvec_def mat_mul_def mat_sub_def np_eye_def nrow_def ncol_def)
    ultimately show ?thesis by simp
  qed
  have dd: "distr_mean (create_dirac_delta [[1]]) = [[1]]"
    "distr_cov (create_dirac_delta [[1]]) = [[0]]"
    by (simp_all add: create_dirac_delta_def NormalDistr_def nrow_def)
  have fin: "bindE (np_add [[0]] [[3 / 8]]) (\<lambda>c. Inr (NormalDistr [[1 / 2]] c)) =
      Inr (NormalDistr [[1 / 2]] [[3 / 8]])"
    by (simp add: np_add_def np_binop_def bdim_def nrow_def ncol_def np_entry_def bindE_def)
  have impl: "OrnsteinUhlenbeckProcess_propagate_distr_impl diag_linalg (ln 2)
      (create_dirac_delta [[1]]) standard_ou = (Inr (NormalDistr [[1 / 2]] [[3 / 8]]), ?p2)"
    by (simp add: OrnsteinUhlenbeckProcess_propagate_distr_impl_def standard_ou_factor
        dd rm c1 nc fin)
  have miss: "\<not> cache_hit standard_ou (TNum (ln 2)) (TNum 0) (create_dirac_delta [[1]])"
    by (simp add: cache_hit_def standard_ou_def)
  have ne: "TNum (ln 2) \<noteq> TNum 0" by simp
  show "fst (propagate_distr (OrnsteinUhlenbeckProcess_propagate_distr_impl diag_linalg)
          (TNum (ln 2)) (TNum 0) (create_dirac_delta [[1]]) standard_ou) =
     Inr (Some (NormalDistr [[1 / 2]] [[3 / 8]]))"
    by (simp add: propagate_distr_miss [OF ne miss] elapsed_step_num impl cache_store_def)
qed

text \<open>
  Whenever \<open>noise_covariance\<close> returns, the distribution that \<open>_propagate_distr_impl\<close>
  returns has the mean \<open>mrf m0 + (I - mrf) mean\<close> and the covariance
  \<open>mrf C0 mrf\<^sup>T + noise_covariance\<close>, in every dimension.
\<close>

lemma NormalDistr_sel: "distr_mean (NormalDistr m c) = m" "distr_cov (NormalDistr m c) = c"
  by (simp_all add: NormalDistr_def)

lemma ou_impl_formula:
  assumes d: "0 < d" and pd: "process_dim p1 = d"
    and f: "mean_reversion_factor la (DNum dt) p = (Inr (Some F), p1)" and F: "is_mat d d F"
    and mu: "is_mat d 1 (OU_mean p1)" and m0: "is_mat d 1 m0" and c0: "is_mat d d C0"
    and nc: "noise_covariance la (DNum dt) p1 = (Inr N, p2)" and N: "is_mat d d N"
  shows "OrnsteinUhlenbeckProcess_propagate_distr_impl la dt (NormalDistr m0 C0) p =
    (Inr (NormalDistr
       (mat_add (mat_mul F m0) (mat_mul (mat_sub (np_eye d) F) (OU_mean p1)))
       (mat_add (mat_mul (mat_mul F C0) (np_T F)) N)), p2)"
proof -
  have sub: "np_sub (np_eye d) F = Inr (mat_sub (np_eye d) F)"
    by (rule np_sub_same [OF is_mat_eye F d])
  have e: "is_mat d d (mat_sub (np_eye d) F)"
    by (rule is_mat_sub [OF is_mat_eye F])
  have a: "np_dot F m0 = Inr (mat_mul F m0)"
    by (rule np_dot_mul [OF F m0 d])
  have b: "np_dot (mat_sub (np_eye d) F) (OU_mean p1) = Inr (mat_mul (mat_sub (np_eye d) F) (OU_mean p1))"
    by (rule np_dot_mul [OF e mu d])
  have s: "np_add (mat_mul F m0) (mat_mul (mat_sub (np_eye d) F) (OU_mean p1)) =
      Inr (mat_add (mat_mul F m0) (mat_mul (mat_sub (np_eye d) F) (OU_mean p1)))"
    by (rule np_add_same [OF is_mat_mul [OF F m0 d] is_mat_mul [OF e mu d] d])
  have rm: "reverted_mean p1 F m0 =
      Inr (mat_add (mat_mul F m0) (mat_mul (mat_sub (np_eye d) F) (OU_mean p1)))"
    by (simp add: reverted_mean_def pd sub a b s bindE_def)
  have x: "np_dot F C0 = Inr (mat_mul F C0)"
    by (rule np_dot_mul [OF F c0 d])
  have y: "np_dot (mat_mul F C0) (np_T F) = Inr (mat_mul (mat_mul F C0) (np_T F))"
    by (rule np_dot_mul [OF is_mat_mul [OF F c0 d] is_mat_T [OF F d] d])
  have c1: "bindE (np_dot F C0) (\<lambda>x. np_dot x (np_T F)) = Inr (mat_mul (mat_mul F C0) (np_T F))"
    by (simp add: x y bindE_def)
  have z: "np_add (mat_mul (mat_mul F C0) (np_T F)) N = Inr (mat_add (mat_mul (mat_mul F C0) (np_T F)) N)"
    by (rule np_add_same [OF is_mat_mul [OF is_mat_mul [OF F c0 d] is_mat_T [OF F d] d] N d])
  have fin: "bindE (np_add (mat_mul (mat_mul F C0) (np_T F)) N) (\<lambda>c. Inr (NormalDistr m c)) =
      Inr (NormalDistr m (mat_add (mat_mul (mat_mul F C0) (np_T F)) N))" for m
    by (simp add: z bindE_def)
  show ?thesis
    by (simp add: OrnsteinUhlenbeckProcess_propagate_distr_impl_def f NormalDistr_sel rm c1 nc fin)
qed

end
